theory Spec2Isabelle
  imports Complex_Main "HOL-Library.Sublist"
begin

section \<open>Data model (src/models/models.py, src/config.py)\<close>

text \<open>
  The relational rows are records. The \<open>mode\<close> and \<open>role\<close> columns are strings that a
  CHECK constraint restricts to a closed set of values, so they are datatypes. Python
  integers are \<open>int\<close>. JSON text columns (\<open>document_ids\<close>, \<open>extra_data\<close>) are kept
  decoded: \<open>get_document_ids\<close> and \<open>set_metadata\<close> are the only accessors the services
  use. Floating-point distances and scores are idealised as \<open>real\<close>.
\<close>

datatype role = User | Assistant | System

datatype mode = OpenChat | Grounded

datatype error =
    ValueError string
  | Exception string
  | IndexError
  | HTTPException nat string

text \<open>The metadata written by \<open>set_metadata\<close> on an assistant message:
  \<open>rag_chunks_used\<close> and \<open>rag_similarity_scores\<close>; \<open>None\<close> is the column default \<open>{}\<close>.\<close>

record rag_metadata =
  rag_chunks_used :: nat
  rag_similarity_scores :: "real list"

record user =
  usr_id :: string
  username :: string
  email :: string

record message =
  msg_id :: string
  conversation_id :: string
  msg_role :: role
  content :: string
  tokens :: int
  msg_created_at :: string
  sequence_number :: int
  msg_extra_data :: "rag_metadata option"

record conversation =
  conv_id :: string
  conv_user_id :: string
  title :: string
  conv_mode :: mode
  document_ids :: "string list"
  conv_created_at :: string
  updated_at :: string
  total_tokens :: int

record document =
  doc_id :: string
  doc_user_id :: string
  filename :: string
  file_path :: string
  file_size :: int
  file_type :: string
  chunk_count :: int
  doc_created_at :: string

record database =
  users :: "user list"
  conversations :: "conversation list"
  messages :: "message list"
  documents :: "document list"

record settings =
  upload_dir :: string
  max_file_size :: int
  max_context_tokens :: int
  top_k_chunks :: nat
  similarity_threshold :: real

definition default_settings :: settings where
  "default_settings =
     \<lparr>upload_dir = ''./data/uploads'', max_file_size = 10 * 1024 * 1024,
      max_context_tokens = 8000, top_k_chunks = 5, similarity_threshold = 7 / 10\<rparr>"

section \<open>External collaborators\<close>

text \<open>
  The embedding model, the language model, the text splitter and the distance of the
  vector space are outside the repository. They enter every operation as the fields of
  an environment; the language model may fail.
\<close>

type_synonym embedding = "real list"

datatype lc_message = SystemMessage string | HumanMessage string | AIMessage string

record env =
  embed_text :: "string \<Rightarrow> embedding"
  embed_query :: "string \<Rightarrow> embedding"
  distance :: "embedding \<Rightarrow> embedding \<Rightarrow> real"
  split_text :: "string \<Rightarrow> string list"
  agenerate :: "lc_message list \<Rightarrow> error + string"

subsection \<open>The vector index\<close>

record chunk_metadata =
  md_document_id :: string
  chunk_index :: nat
  document_title :: string
  md_created_at :: string

record index_entry =
  entry_id :: string
  entry_document :: string
  entry_embedding :: embedding
  entry_metadata :: chunk_metadata

datatype where_filter = DocumentIdIn "string list" | DocumentIdEq string

text \<open>What was asked of the index in one \<open>query\<close> call.\<close>

record index_query =
  q_embedding :: embedding
  q_n_results :: nat
  q_where :: "where_filter option"

text \<open>
  The collection holds its entries in insertion order; \<open>query_log\<close> records every
  \<open>query\<close> call served, oldest first, so that "retrieval was invoked" is a property of
  the state.
\<close>

record collection =
  entries :: "index_entry list"
  query_log :: "index_query list"

record query_results =
  res_documents :: "string list list"
  res_metadatas :: "chunk_metadata list list"
  res_distances :: "real list list"

fun matches :: "where_filter option \<Rightarrow> index_entry \<Rightarrow> bool" where
  "matches None e = True"
| "matches (Some (DocumentIdIn ids)) e = (md_document_id (entry_metadata e) \<in> set ids)"
| "matches (Some (DocumentIdEq d)) e = (md_document_id (entry_metadata e) = d)"

text \<open>
  Modelled from the spec: the index's \<open>upsert(id, text, embedding, metadata)\<close>, called
  as \<open>collection.add\<close> with four parallel lists; the batch is appended.
\<close>

definition collection_add ::
  "collection \<Rightarrow> string list \<Rightarrow> embedding list \<Rightarrow> chunk_metadata list \<Rightarrow> string list \<Rightarrow> collection" where
  "collection_add coll docs embs metas ids =
     coll\<lparr>entries := entries coll @
        map (\<lambda>(i, d, e, m). \<lparr>entry_id = i, entry_document = d, entry_embedding = e, entry_metadata = m\<rparr>)
            (zip ids (zip docs (zip embs metas)))\<rparr>"

text \<open>
  Modelled from the spec: the index's \<open>query(embedding, k, filter_by_metadata)\<close>, a
  ranked list of text, metadata and distance: the \<open>k\<close> nearest entries that satisfy the
  filter, nearest first, for the single query embedding sent.
\<close>

definition collection_query ::
  "env \<Rightarrow> collection \<Rightarrow> embedding \<Rightarrow> nat \<Rightarrow> where_filter option \<Rightarrow> query_results \<times> collection" where
  "collection_query ev coll qe n flt =
     (let hits = take n (sort_key (\<lambda>e. distance ev qe (entry_embedding e))
                          (filter (matches flt) (entries coll)))
      in (\<lparr>res_documents = [map entry_document hits],
           res_metadatas = [map entry_metadata hits],
           res_distances = [map (\<lambda>e. distance ev qe (entry_embedding e)) hits]\<rparr>,
          coll\<lparr>query_log := query_log coll @
                 [\<lparr>q_embedding = qe, q_n_results = n, q_where = flt\<rparr>]\<rparr>))"

text \<open>
  Modelled from the spec: the scan and the bulk delete behind
  \<open>delete_where(metadata_predicate)\<close>: \<open>collection.get(where=..., include=[])\<close> returns
  the ids of the matching entries, \<open>collection.delete(ids=...)\<close> removes the entries
  stored under these ids.
\<close>

definition collection_get :: "collection \<Rightarrow> where_filter option \<Rightarrow> string list" where
  "collection_get coll flt = map entry_id (filter (matches flt) (entries coll))"

definition collection_delete :: "collection \<Rightarrow> string list \<Rightarrow> collection" where
  "collection_delete coll ids =
     coll\<lparr>entries := filter (\<lambda>e. entry_id e \<notin> set ids) (entries coll)\<rparr>"

section \<open>LLMService (src/services/llm_service.py)\<close>

definition count_tokens :: "string \<Rightarrow> int" where
  "count_tokens text = int (length text) div 4"

text \<open>\<open>if system_prompt:\<close> is Python truthiness: neither \<open>None\<close> nor empty.\<close>

fun truthy :: "string option \<Rightarrow> bool" where
  "truthy None = False"
| "truthy (Some s) = (s \<noteq> [])"

fun to_langchain :: "message \<Rightarrow> lc_message" where
  "to_langchain msg =
     (case msg_role msg of
        User \<Rightarrow> HumanMessage (content msg)
      | Assistant \<Rightarrow> AIMessage (content msg)
      | System \<Rightarrow> SystemMessage (content msg))"

definition format_messages_for_llm :: "message list \<Rightarrow> string option \<Rightarrow> lc_message list" where
  "format_messages_for_llm msgs system_prompt =
     (if truthy system_prompt then [SystemMessage (the system_prompt)] else [])
     @ map to_langchain msgs"

text \<open>
  The loop of \<open>get_context_window\<close> over \<open>reversed_messages\<close>: \<open>selected\<close> is
  \<open>selected_messages\<close>, \<open>token_count\<close> the running total; \<open>break\<close> returns what was
  selected so far, \<open>insert(0, msg)\<close> is consing.
\<close>

fun context_loop :: "message list \<Rightarrow> int \<Rightarrow> message list \<Rightarrow> int \<Rightarrow> message list" where
  "context_loop [] max_tokens selected token_count = selected"
| "context_loop (msg # rest) max_tokens selected token_count =
     (if token_count + tokens msg > max_tokens then selected
      else context_loop rest max_tokens (msg # selected) (token_count + tokens msg))"

definition get_context_window :: "settings \<Rightarrow> message list \<Rightarrow> int option \<Rightarrow> message list" where
  "get_context_window cfg msgs max_tokens =
     (let max_tokens = (case max_tokens of None \<Rightarrow> max_context_tokens cfg | Some b \<Rightarrow> b);
          reversed_messages = rev msgs
      in context_loop reversed_messages max_tokens [] 0)"

definition sum_tokens :: "message list \<Rightarrow> int" where
  "sum_tokens ms = sum_list (map tokens ms)"

definition default_system_prompt :: string where
  \<open>default_system_prompt = ''You are BOT GPT, a helpful AI assistant. Provide direct, concise answers without showing your reasoning process or thinking steps. Never include internal thought processes like 'Okay, let me think' or 'I should'. Just give the final answer directly.''\<close>

definition grounded_system_prompt :: string where
  \<open>grounded_system_prompt = ''You are BOT GPT. You MUST answer questions STRICTLY based on the provided document context ONLY.\<newline>\<newline>CRITICAL RULES:\<newline>1. Use ONLY information from the provided context below\<newline>2. DO NOT use your general knowledge or training data\<newline>3. If the answer is not in the context, say "I don't have that information in the uploaded documents"\<newline>4. Never make assumptions or infer information not explicitly stated in the context\<newline>5. Provide direct answers without showing reasoning\<newline>\<newline>Context from documents:\<newline>''\<close>

text \<open>Lines 70 to 86 of \<open>generate_response\<close>: the system instruction that is sent.\<close>

definition select_system_prompt :: "string option \<Rightarrow> string option \<Rightarrow> string" where
  "select_system_prompt rag_context system_prompt =
     (let system_prompt = (case system_prompt of None \<Rightarrow> default_system_prompt | Some p \<Rightarrow> p)
      in if truthy rag_context then grounded_system_prompt @ the rag_context
         else system_prompt)"

record llm_response =
  resp_content :: string
  input_tokens :: int
  output_tokens :: int
  resp_total_tokens :: int

definition generate_response ::
  "env \<Rightarrow> settings \<Rightarrow> message list \<Rightarrow> string option \<Rightarrow> string option \<Rightarrow> error + llm_response" where
  "generate_response ev cfg msgs rag_context system_prompt =
     (let system_prompt = select_system_prompt rag_context system_prompt;
          context_messages = get_context_window cfg msgs None;
          langchain_messages = format_messages_for_llm context_messages (Some system_prompt)
      in case agenerate ev langchain_messages of
           Inl e \<Rightarrow> Inl e
         | Inr assistant_message \<Rightarrow>
             (let input_tokens = sum_tokens context_messages;
                  output_tokens = count_tokens assistant_message
              in Inr \<lparr>resp_content = assistant_message, input_tokens = input_tokens,
                      output_tokens = output_tokens,
                      resp_total_tokens = input_tokens + output_tokens\<rparr>))"

section \<open>DocumentService (src/services/document_service.py)\<close>

text \<open>Decimal rendering of the integers that the f-strings interpolate.\<close>

fun str_nat :: "nat \<Rightarrow> string" where
  "str_nat n =
     (if n < 10 then [''0123456789'' ! n]
      else str_nat (n div 10) @ [''0123456789'' ! (n mod 10)])"

declare str_nat.simps [simp del]

definition str_int :: "int \<Rightarrow> string" where
  "str_int i = (if i < 0 then ''-'' @ str_nat (nat (- i)) else str_nat (nat i))"

text \<open>The characters \<open>str.strip()\<close> removes, within ASCII.\<close>

definition is_space :: "char \<Rightarrow> bool" where
  "is_space c \<longleftrightarrow>
     c \<in> set [CHR 0x09, CHR 0x0A, CHR 0x0B, CHR 0x0C, CHR 0x0D,
              CHR 0x1C, CHR 0x1D, CHR 0x1E, CHR 0x1F, CHR 0x20]"

definition strip :: "string \<Rightarrow> string" where
  "strip s = rev (dropWhile is_space (rev (dropWhile is_space s)))"

text \<open>
  What the PDF reader makes of the stored file: opening or reading it raises, or every
  page yields the text of \<open>page.extract_text()\<close>.
\<close>

datatype pdf_file = Unreadable string | Pages "string list"

fun extract_pages :: "nat \<Rightarrow> string list \<Rightarrow> string \<Rightarrow> string" where
  "extract_pages page_num [] text = text"
| "extract_pages page_num (page_text # rest) text =
     extract_pages (Suc page_num) rest
       (if page_text \<noteq> []
        then text @ ''\<newline>--- Page '' @ str_nat (page_num + 1) @ '' ---\<newline>'' @ page_text
        else text)"

definition extract_text_from_pdf :: "pdf_file \<Rightarrow> error + string" where
  "extract_text_from_pdf pdf =
     (case pdf of
        Unreadable e \<Rightarrow> Inl (Exception (''Error extracting PDF text: '' @ e))
      | Pages pdf_pages \<Rightarrow>
          (let text = extract_pages 0 pdf_pages []
           in if strip text = [] then Inl (Exception ''No text could be extracted from PDF'')
              else Inr text))"

definition process_document ::
  "env \<Rightarrow> collection \<Rightarrow> pdf_file \<Rightarrow> document \<Rightarrow> (error + int) \<times> collection" where
  "process_document ev coll pdf doc =
     (case extract_text_from_pdf pdf of
        Inl e \<Rightarrow> (Inl e, coll)
      | Inr text \<Rightarrow>
          (let chunks = split_text ev text
           in if chunks = [] then (Inl (Exception ''No chunks created from document''), coll)
              else
                (let metadatas =
                       map (\<lambda>(i, chunk).
                              \<lparr>md_document_id = doc_id doc, chunk_index = i,
                               document_title = filename doc,
                               md_created_at = doc_created_at doc\<rparr>)
                           (enumerate 0 chunks);
                     ids = map (\<lambda>(i, chunk). doc_id doc @ ''_chunk_'' @ str_nat i)
                               (enumerate 0 chunks);
                     embeddings = map (embed_text ev) chunks
                 in (Inr (int (length chunks)),
                     collection_add coll chunks embeddings metadatas ids))))"

record retrieved_chunk =
  rc_content :: string
  rc_metadata :: chunk_metadata
  similarity_score :: real
  rank :: nat

text \<open>The loop over \<open>enumerate(zip(documents, metadatas, distances))\<close>.\<close>

fun collect_chunks ::
  "settings \<Rightarrow> (nat \<times> string \<times> chunk_metadata \<times> real) list \<Rightarrow> retrieved_chunk list" where
  "collect_chunks cfg [] = []"
| "collect_chunks cfg ((i, doc, metadata, d) # rest) =
     (let similarity = 1 - d
      in if similarity \<ge> similarity_threshold cfg
         then \<lparr>rc_content = doc, rc_metadata = metadata,
               similarity_score = similarity, rank = i + 1\<rparr> # collect_chunks cfg rest
         else collect_chunks cfg rest)"

text \<open>
  Lines 129 to 148 of \<open>retrieve_relevant_chunks\<close>. Indexing an empty outer list with
  \<open>[0]\<close> raises \<open>IndexError\<close>.
\<close>

definition format_results :: "settings \<Rightarrow> query_results \<Rightarrow> error + retrieved_chunk list" where
  "format_results cfg results =
     (if res_documents results \<noteq> [] \<and> hd (res_documents results) \<noteq> [] then
        (if res_metadatas results = [] \<or> res_distances results = [] then Inl IndexError
         else Inr (collect_chunks cfg
                     (enumerate 0 (zip (hd (res_documents results))
                                       (zip (hd (res_metadatas results))
                                            (hd (res_distances results)))))))
      else Inr [])"

definition build_where_filter :: "string list \<Rightarrow> where_filter option" where
  "build_where_filter doc_ids = (if doc_ids \<noteq> [] then Some (DocumentIdIn doc_ids) else None)"

definition retrieve_relevant_chunks ::
  "env \<Rightarrow> settings \<Rightarrow> collection \<Rightarrow> string \<Rightarrow> string list \<Rightarrow> nat option
     \<Rightarrow> (error + retrieved_chunk list) \<times> collection" where
  "retrieve_relevant_chunks ev cfg coll query doc_ids top_k =
     (let top_k = (case top_k of None \<Rightarrow> top_k_chunks cfg | Some k \<Rightarrow> k);
          query_embedding = embed_query ev query;
          where_filter = build_where_filter doc_ids;
          (results, coll') = collection_query ev coll query_embedding top_k where_filter
      in (format_results cfg results, coll'))"

fun str_join :: "string \<Rightarrow> string list \<Rightarrow> string" where
  "str_join sep [] = []"
| "str_join sep [x] = x"
| "str_join sep (x # y # ys) = x @ sep @ str_join sep (y # ys)"

definition format_rag_context :: "retrieved_chunk list \<Rightarrow> string" where
  "format_rag_context chunks =
     (if chunks = [] then []
      else str_join ''\<newline>''
             (map (\<lambda>chunk. ''[Source: '' @ document_title (rc_metadata chunk) @ '']''
                            @ ''\<newline>'' @ rc_content chunk @ ''\<newline>'')
                  chunks))"

definition delete_document_chunks :: "collection \<Rightarrow> string \<Rightarrow> collection" where
  "delete_document_chunks coll document_id =
     (let ids = collection_get coll (Some (DocumentIdEq document_id))
      in if ids \<noteq> [] then collection_delete coll ids else coll)"

section \<open>ConversationService (src/services/conversation_service.py)\<close>

definition get_conversation :: "database \<Rightarrow> string \<Rightarrow> conversation option" where
  "get_conversation db cid = find (\<lambda>c. conv_id c = cid) (conversations db)"

definition get_messages :: "database \<Rightarrow> string \<Rightarrow> message list" where
  "get_messages db cid =
     sort_key sequence_number (filter (\<lambda>m. conversation_id m = cid) (messages db))"

text \<open>\<open>order_by(sequence_number.desc()).first()\<close>: the head of the descending order.\<close>

definition get_next_sequence_number :: "database \<Rightarrow> string \<Rightarrow> int" where
  "get_next_sequence_number db cid =
     (case sort_key (\<lambda>m. - sequence_number m)
             (filter (\<lambda>m. conversation_id m = cid) (messages db)) of
        [] \<Rightarrow> 0
      | last_message # _ \<Rightarrow> sequence_number last_message + 1)"

text \<open>
  The values that the column defaults produce when a row is flushed: a fresh UUID and
  the clock reading, for the user message and for the assistant message.
\<close>

record fresh =
  user_msg_id :: string
  user_msg_now :: string
  assistant_msg_id :: string
  assistant_msg_now :: string

record turn_result =
  user_message :: message
  assistant_message :: message
  res_conversation :: conversation
  retrieved_context :: "retrieved_chunk list option"

text \<open>
  The turn returns its result or the exception raised, and the database and the index
  as they are afterwards. An exception after the flush leaves the session uncommitted;
  the session is closed by \<open>get_db\<close>, which discards the flushed user message.
\<close>

definition add_message_and_get_response ::
  "env \<Rightarrow> settings \<Rightarrow> fresh \<Rightarrow> database \<Rightarrow> collection \<Rightarrow> string \<Rightarrow> string
     \<Rightarrow> (error + turn_result) \<times> database \<times> collection" where
  "add_message_and_get_response ev cfg fr db coll cid user_message_content =
     (case get_conversation db cid of
        None \<Rightarrow> (Inl (ValueError ''Conversation not found''), db, coll)
      | Some conversation \<Rightarrow>
          (let msgs = get_messages db cid;
               user_seq = get_next_sequence_number db cid;
               assistant_seq = user_seq + 1;
               user_tokens = count_tokens user_message_content;
               user_msg = \<lparr>msg_id = user_msg_id fr, conversation_id = cid, msg_role = User,
                           content = user_message_content, tokens = user_tokens,
                           msg_created_at = user_msg_now fr, sequence_number = user_seq,
                           msg_extra_data = None\<rparr>;
               (retrieved, coll') =
                  (if conv_mode conversation = Grounded \<and> document_ids conversation \<noteq> []
                   then retrieve_relevant_chunks ev cfg coll user_message_content
                          (document_ids conversation) None
                   else (Inr [], coll))
           in case retrieved of
                Inl e \<Rightarrow> (Inl e, db, coll')
              | Inr retrieved_ctx \<Rightarrow>
                  (let rag_context_str =
                         (if retrieved_ctx \<noteq> [] then Some (format_rag_context retrieved_ctx)
                          else None);
                       all_messages = msgs @ [user_msg]
                   in case generate_response ev cfg all_messages rag_context_str None of
                        Inl e \<Rightarrow> (Inl e, db, coll')
                      | Inr response \<Rightarrow>
                          (let assistant_msg =
                                 \<lparr>msg_id = assistant_msg_id fr, conversation_id = cid,
                                  msg_role = Assistant, content = resp_content response,
                                  tokens = output_tokens response,
                                  msg_created_at = assistant_msg_now fr,
                                  sequence_number = assistant_seq,
                                  msg_extra_data =
                                    (if retrieved_ctx \<noteq> []
                                     then Some \<lparr>rag_chunks_used = length retrieved_ctx,
                                                rag_similarity_scores =
                                                  map similarity_score retrieved_ctx\<rparr>
                                     else None)\<rparr>;
                               conversation' = conversation
                                 \<lparr>total_tokens := total_tokens conversation
                                                    + (user_tokens + output_tokens response),
                                  updated_at := msg_created_at user_msg\<rparr>;
                               db' = db
                                 \<lparr>messages := messages db @ [user_msg, assistant_msg],
                                  conversations :=
                                    map (\<lambda>c. if conv_id c = cid then conversation' else c)
                                        (conversations db)\<rparr>
                           in (Inr \<lparr>user_message = user_msg, assistant_message = assistant_msg,
                                    res_conversation = conversation',
                                    retrieved_context =
                                      (if conv_mode conversation = Grounded
                                       then Some retrieved_ctx else None)\<rparr>,
                               db', coll')))))"

section \<open>The upload route (src/api/routes.py, \<open>upload_document\<close>)\<close>

record upload_file =
  up_filename :: string
  up_size :: "int option"
  up_written :: int
  up_pdf :: pdf_file

fun error_message :: "error \<Rightarrow> string" where
  "error_message (ValueError m) = m"
| "error_message (Exception m) = m"
| "error_message IndexError = ''list index out of range''"
| "error_message (HTTPException code m) = m"

text \<open>
  The file system is not modelled: \<open>save_uploaded_file\<close> yields the path and the size
  written. \<open>new_id\<close> and \<open>now\<close> are the column defaults of the document row. Any
  exception of the \<open>try\<close> block is answered by \<open>db.rollback()\<close>, which leaves the
  database as it was, and status 500.
\<close>

definition upload_document ::
  "env \<Rightarrow> settings \<Rightarrow> string \<Rightarrow> string \<Rightarrow> database \<Rightarrow> collection \<Rightarrow> upload_file \<Rightarrow> string
     \<Rightarrow> (error + document) \<times> database \<times> collection" where
  "upload_document ev cfg new_id now db coll file uid =
     (if find (\<lambda>u. usr_id u = uid) (users db) = None
      then (Inl (HTTPException 404 ''User not found''), db, coll)
      else if \<not> suffix ''.pdf'' (up_filename file)
      then (Inl (HTTPException 400 ''Only PDF files are supported''), db, coll)
      else if (case up_size file of None \<Rightarrow> False
               | Some sz \<Rightarrow> sz \<noteq> 0 \<and> sz > max_file_size cfg)
      then (Inl (HTTPException 400
                  (''File too large. Max size: '' @ str_int (max_file_size cfg) @ '' bytes'')),
            db, coll)
      else
        (let path = upload_dir cfg @ ''/'' @ uid @ ''_'' @ up_filename file;
             doc = \<lparr>doc_id = new_id, doc_user_id = uid, filename = up_filename file,
                    file_path = path, file_size = up_written file,
                    file_type = ''application/pdf'', chunk_count = 0,
                    doc_created_at = now\<rparr>
         in case process_document ev coll (up_pdf file) doc of
              (Inl e, coll') \<Rightarrow>
                (Inl (HTTPException 500 (''Error processing document: '' @ error_message e)),
                 db, coll')
            | (Inr n, coll') \<Rightarrow>
                (let doc' = doc\<lparr>chunk_count := n\<rparr>
                 in (Inr doc', db\<lparr>documents := documents db @ [doc']\<rparr>, coll'))))"

section \<open>Auxiliary definitions\<close>

text \<open>
  The rows and intermediate values that one turn of \<open>add_message_and_get_response\<close>
  builds, named so that the statements about a turn can refer to them.
\<close>

definition turn_user_message :: "fresh \<Rightarrow> database \<Rightarrow> string \<Rightarrow> string \<Rightarrow> message" where
  "turn_user_message fr db cid txt =
     \<lparr>msg_id = user_msg_id fr, conversation_id = cid, msg_role = User,
      content = txt, tokens = count_tokens txt, msg_created_at = user_msg_now fr,
      sequence_number = get_next_sequence_number db cid, msg_extra_data = None\<rparr>"

definition turn_retrieval ::
  "env \<Rightarrow> settings \<Rightarrow> collection \<Rightarrow> conversation \<Rightarrow> string
     \<Rightarrow> (error + retrieved_chunk list) \<times> collection" where
  "turn_retrieval ev cfg coll c txt =
     (if conv_mode c = Grounded \<and> document_ids c \<noteq> []
      then retrieve_relevant_chunks ev cfg coll txt (document_ids c) None
      else (Inr [], coll))"

definition turn_rag_context :: "retrieved_chunk list \<Rightarrow> string option" where
  "turn_rag_context rc = (if rc \<noteq> [] then Some (format_rag_context rc) else None)"

definition turn_assistant_message ::
  "fresh \<Rightarrow> database \<Rightarrow> string \<Rightarrow> retrieved_chunk list \<Rightarrow> llm_response \<Rightarrow> message" where
  "turn_assistant_message fr db cid rc resp =
     \<lparr>msg_id = assistant_msg_id fr, conversation_id = cid, msg_role = Assistant,
      content = resp_content resp, tokens = output_tokens resp,
      msg_created_at = assistant_msg_now fr,
      sequence_number = get_next_sequence_number db cid + 1,
      msg_extra_data =
        (if rc \<noteq> []
         then Some \<lparr>rag_chunks_used = length rc,
                    rag_similarity_scores = map similarity_score rc\<rparr>
         else None)\<rparr>"

definition turn_conversation :: "fresh \<Rightarrow> conversation \<Rightarrow> string \<Rightarrow> llm_response \<Rightarrow> conversation" where
  "turn_conversation fr c txt resp =
     c\<lparr>total_tokens := total_tokens c + (count_tokens txt + output_tokens resp),
       updated_at := user_msg_now fr\<rparr>"

text \<open>The dictionary that the loop of \<open>retrieve_relevant_chunks\<close> builds from one row.\<close>

definition mk_chunk :: "nat \<times> string \<times> chunk_metadata \<times> real \<Rightarrow> retrieved_chunk" where
  "mk_chunk z =
     (case z of (i, doc, metadata, d) \<Rightarrow>
        \<lparr>rc_content = doc, rc_metadata = metadata, similarity_score = 1 - d, rank = i + 1\<rparr>)"

text \<open>
  The entries that the modelled index selects for a query, and the row of text, metadata
  and distance it reports for an entry.
\<close>

definition query_hits :: "env \<Rightarrow> collection \<Rightarrow> embedding \<Rightarrow> nat \<Rightarrow> where_filter option \<Rightarrow> index_entry list" where
  "query_hits ev coll qe n flt =
     take n (sort_key (\<lambda>e. distance ev qe (entry_embedding e))
               (filter (matches flt) (entries coll)))"

definition hit_row :: "env \<Rightarrow> embedding \<Rightarrow> index_entry \<Rightarrow> string \<times> chunk_metadata \<times> real" where
  "hit_row ev qe e = (entry_document e, entry_metadata e, distance ev qe (entry_embedding e))"

text \<open>The index entry that \<open>process_document\<close> writes for the chunk at position \<open>i\<close>.\<close>

definition chunk_entry :: "env \<Rightarrow> document \<Rightarrow> nat \<times> string \<Rightarrow> index_entry" where
  "chunk_entry ev doc z =
     (case z of (i, chunk) \<Rightarrow>
        \<lparr>entry_id = doc_id doc @ ''_chunk_'' @ str_nat i, entry_document = chunk,
         entry_embedding = embed_text ev chunk,
         entry_metadata = \<lparr>md_document_id = doc_id doc, chunk_index = i,
                           document_title = filename doc,
                           md_created_at = doc_created_at doc\<rparr>\<rparr>)"

text \<open>Reading a decimal rendering back, the inverse of \<open>str_nat\<close>.\<close>

definition nat_of_digits :: "string \<Rightarrow> nat" where
  "nat_of_digits s = foldl (\<lambda>a c. 10 * a + (of_char c - 48)) 0 s"

section \<open>Sample data\<close>

text \<open>Concrete inputs on which the operations are evaluated below.\<close>

definition sample_message :: "int \<Rightarrow> int \<Rightarrow> message" where
  "sample_message n t =
     \<lparr>msg_id = ''m'', conversation_id = ''c1'', msg_role = User, content = ''hello'',
      tokens = t, msg_created_at = ''2024-01-01T00:00:00'', sequence_number = n,
      msg_extra_data = None\<rparr>"

definition sample_history :: "message list" where
  "sample_history = [sample_message 0 1000, sample_message 1 1000,
                     sample_message 2 1000, sample_message 3 1000]"

definition sample_metadata :: chunk_metadata where
  "sample_metadata =
     \<lparr>md_document_id = ''d1'', chunk_index = 0, document_title = ''paper.pdf'',
      md_created_at = ''2024-01-01T00:00:00''\<rparr>"

text \<open>Two results at the same distance, as the index may return them.\<close>

definition tie_results :: query_results where
  "tie_results =
     \<lparr>res_documents = [[''alpha'', ''beta'']],
      res_metadatas = [[sample_metadata, sample_metadata]],
      res_distances = [[1 / 10, 1 / 10]]\<rparr>"

definition tie_chunks :: "retrieved_chunk list" where
  "tie_chunks =
     [\<lparr>rc_content = ''alpha'', rc_metadata = sample_metadata,
       similarity_score = 9 / 10, rank = 1\<rparr>,
      \<lparr>rc_content = ''beta'', rc_metadata = sample_metadata,
       similarity_score = 9 / 10, rank = 2\<rparr>]"

text \<open>The scenario of the specification: distances 0.1, 0.5 and 0.9, threshold 0.7.\<close>

definition scenario_results :: query_results where
  "scenario_results =
     \<lparr>res_documents = [[''alpha'', ''beta'', ''gamma'']],
      res_metadatas = [[sample_metadata, sample_metadata, sample_metadata]],
      res_distances = [[1 / 10, 5 / 10, 9 / 10]]\<rparr>"

definition scenario_chunks :: "retrieved_chunk list" where
  "scenario_chunks =
     [\<lparr>rc_content = ''alpha'', rc_metadata = sample_metadata,
       similarity_score = 9 / 10, rank = 1\<rparr>]"

definition sample_env :: env where
  "sample_env =
     \<lparr>embed_text = (\<lambda>t. [real (length t)]), embed_query = (\<lambda>t. [real (length t)]),
      distance = (\<lambda>a b. 1 / 10), split_text = (\<lambda>t. [t]),
      agenerate = (\<lambda>ms. Inr ''Hi there!'')\<rparr>"

definition sample_fresh :: fresh where
  "sample_fresh =
     \<lparr>user_msg_id = ''m1'', user_msg_now = ''2024-01-01T10:00:00'',
      assistant_msg_id = ''m2'', assistant_msg_now = ''2024-01-01T10:00:01''\<rparr>"

definition open_conversation :: conversation where
  "open_conversation =
     \<lparr>conv_id = ''c1'', conv_user_id = ''u1'', title = ''Chat'', conv_mode = OpenChat,
      document_ids = [], conv_created_at = ''2024-01-01T09:00:00'',
      updated_at = ''2024-01-01T09:00:00'', total_tokens = 0\<rparr>"

definition grounded_conversation :: conversation where
  "grounded_conversation =
     \<lparr>conv_id = ''c2'', conv_user_id = ''u1'', title = ''Paper'', conv_mode = Grounded,
      document_ids = [''d1''], conv_created_at = ''2024-01-01T09:00:00'',
      updated_at = ''2024-01-01T09:00:00'', total_tokens = 0\<rparr>"

definition sample_db :: database where
  "sample_db =
     \<lparr>users = [\<lparr>usr_id = ''u1'', username = ''ann'', email = ''ann@example.com''\<rparr>],
      conversations = [open_conversation, grounded_conversation],
      messages = [], documents = []\<rparr>"

definition sample_collection :: collection where
  "sample_collection =
     \<lparr>entries =
        [\<lparr>entry_id = ''d1_chunk_0'', entry_document = ''alpha'', entry_embedding = [5],
          entry_metadata = sample_metadata\<rparr>,
         \<lparr>entry_id = ''d2_chunk_0'', entry_document = ''beta'', entry_embedding = [4],
          entry_metadata = sample_metadata\<lparr>md_document_id := ''d2''\<rparr>\<rparr>],
      query_log = []\<rparr>"

definition blank_upload :: upload_file where
  "blank_upload =
     \<lparr>up_filename = ''scan.pdf'', up_size = Some 1000, up_written = 1000,
      up_pdf = Pages [[], []]\<rparr>"

definition sample_document :: document where
  "sample_document =
     \<lparr>doc_id = ''d9'', doc_user_id = ''u1'', filename = ''note.pdf'',
      file_path = ''./data/uploads/u1_note.pdf'', file_size = 1000,
      file_type = ''application/pdf'', chunk_count = 0,
      doc_created_at = ''2024-01-02T00:00:00''\<rparr>"

section \<open>Verification\<close>

subsection \<open>The context window\<close>

lemma sum_tokens_simps [simp]:
  "sum_tokens [] = 0" "sum_tokens (m # ms) = tokens m + sum_tokens ms"
  "sum_tokens (xs @ ys) = sum_tokens xs + sum_tokens ys"
  by (simp_all add: sum_tokens_def)

lemma sum_tokens_rev [simp]: "sum_tokens (rev xs) = sum_tokens xs"
  by (simp add: sum_tokens_def rev_map [symmetric])

text \<open>
  The loop accepts a prefix of the reversed history: every shorter prefix fits the
  budget, and the next message, if there is one, does not.
\<close>

lemma context_loop_char:
  "\<exists>k\<le>length rs. context_loop rs B sel tc = rev (take k rs) @ sel
      \<and> (\<forall>j<k. tc + sum_tokens (take (Suc j) rs) \<le> B)
      \<and> (k < length rs \<longrightarrow> tc + sum_tokens (take (Suc k) rs) > B)"
proof (induction rs arbitrary: sel tc)
  case Nil
  then show ?case by simp
next
  case (Cons m rs)
  show ?case
  proof (cases "tc + tokens m > B")
    case True
    then show ?thesis by (intro exI[of _ 0]) simp
  next
    case False
    from Cons.IH[of "m # sel" "tc + tokens m"] obtain k where k: "k \<le> length rs"
      "context_loop rs B (m # sel) (tc + tokens m) = rev (take k rs) @ m # sel"
      "\<forall>j<k. tc + tokens m + sum_tokens (take (Suc j) rs) \<le> B"
      "k < length rs \<longrightarrow> tc + tokens m + sum_tokens (take (Suc k) rs) > B"
      by blast
    have "\<forall>j<Suc k. tc + sum_tokens (take (Suc j) (m # rs)) \<le> B"
    proof (intro allI impI)
      fix j assume "j < Suc k"
      show "tc + sum_tokens (take (Suc j) (m # rs)) \<le> B"
      proof (cases j)
        case 0 then show ?thesis using False by simp
      next
        case (Suc i)
        then have "i < k" using \<open>j < Suc k\<close> by simp
        with k(3) Suc show ?thesis by (simp add: add.assoc)
      qed
    qed
    with k False show ?thesis
      by (intro exI[of _ "Suc k"]) (simp add: add.assoc)
  qed
qed

lemma sum_tokens_take_mono:
  assumes "\<forall>m\<in>set xs. 0 \<le> tokens m" "i \<le> j"
  shows "sum_tokens (take i xs) \<le> sum_tokens (take j xs)"
proof -
  have "take j xs = take i xs @ take (j - i) (drop i xs)"
    using assms(2) by (metis le_add_diff_inverse take_add)
  moreover have "0 \<le> sum_tokens (take (j - i) (drop i xs))"
    unfolding sum_tokens_def using assms(1)
    by (intro sum_list_nonneg) (auto dest!: in_set_takeD in_set_dropD)
  ultimately show ?thesis by simp
qed

lemma get_context_window_default:
  "get_context_window cfg H None = get_context_window cfg H (Some (max_context_tokens cfg))"
  by (simp add: get_context_window_def)

lemma get_context_window_char:
  "\<exists>k\<le>length H. get_context_window cfg H (Some B) = drop (length H - k) H
      \<and> (\<forall>j<k. sum_tokens (drop (length H - Suc j) H) \<le> B)
      \<and> (k < length H \<longrightarrow> sum_tokens (drop (length H - Suc k) H) > B)"
proof -
  obtain k where k: "k \<le> length (rev H)"
    "context_loop (rev H) B [] 0 = rev (take k (rev H)) @ []"
    "\<forall>j<k. 0 + sum_tokens (take (Suc j) (rev H)) \<le> B"
    "k < length (rev H) \<longrightarrow> 0 + sum_tokens (take (Suc k) (rev H)) > B"
    using context_loop_char[of "rev H" B "[]" 0] by blast
  have tk: "sum_tokens (take i (rev H)) = sum_tokens (drop (length H - i) H)" for i
    by (simp add: take_rev)
  have "get_context_window cfg H (Some B) = drop (length H - k) H"
    using k(2) by (simp add: get_context_window_def take_rev)
  with k(1,3,4) show ?thesis unfolding tk by auto
qed

text \<open>
  C1. For a history \<open>H\<close> (oldest first) of non-negative token counts and a non-negative
  budget \<open>B\<close>, \<open>get_context_window\<close> returns a suffix of \<open>H\<close>, in the order of \<open>H\<close>, whose
  token total is at most \<open>B\<close>; no suffix of \<open>H\<close> within the budget is longer; every
  message of the result fitted the budget left by the messages after it; and if the
  most recent message alone exceeds \<open>B\<close> the result is empty. Without an explicit budget
  the configured \<open>max_context_tokens\<close> is the budget.
\<close>

theorem get_context_window_longest_suffix:
  assumes nonneg: "\<forall>m\<in>set H. 0 \<le> tokens m" and B0: "0 \<le> B"
  shows "suffix (get_context_window cfg H (Some B)) H
     \<and> sum_tokens (get_context_window cfg H (Some B)) \<le> B
     \<and> (\<forall>ys. suffix ys H \<and> sum_tokens ys \<le> B
            \<longrightarrow> length ys \<le> length (get_context_window cfg H (Some B)))
     \<and> (\<forall>pre m post. get_context_window cfg H (Some B) = pre @ m # post
            \<longrightarrow> tokens m \<le> B - sum_tokens post)
     \<and> (H \<noteq> [] \<and> B < tokens (last H) \<longrightarrow> get_context_window cfg H (Some B) = [])
     \<and> (B = max_context_tokens cfg
            \<longrightarrow> get_context_window cfg H None = get_context_window cfg H (Some B))"
proof -
  let ?n = "length H"
  define W where "W = get_context_window cfg H (Some B)"
  obtain k where k: "k \<le> ?n" "W = drop (?n - k) H"
    "\<forall>j<k. sum_tokens (drop (?n - Suc j) H) \<le> B"
    "k < ?n \<longrightarrow> sum_tokens (drop (?n - Suc k) H) > B"
    unfolding W_def using get_context_window_char[of H cfg B] by blast
  have mono: "sum_tokens (drop (?n - i) H) \<le> sum_tokens (drop (?n - j) H)" if "i \<le> j" for i j
  proof -
    have "sum_tokens (take i (rev H)) \<le> sum_tokens (take j (rev H))"
      using nonneg that by (intro sum_tokens_take_mono) auto
    then show ?thesis by (simp add: take_rev)
  qed
  have p1: "suffix W H" using k(2) by (simp add: suffix_drop)
  have p2: "sum_tokens W \<le> B"
  proof (cases k)
    case 0 then show ?thesis using k(1,2) B0 by simp
  next
    case (Suc i) then show ?thesis using k(2,3) by auto
  qed
  have p3: "\<forall>ys. suffix ys H \<and> sum_tokens ys \<le> B \<longrightarrow> length ys \<le> length W"
  proof (intro allI impI, elim conjE)
    fix ys assume s: "suffix ys H" and b: "sum_tokens ys \<le> B"
    from s have ys: "ys = drop (?n - length ys) H" and ly: "length ys \<le> ?n"
      by (auto simp: suffix_def)
    show "length ys \<le> length W"
    proof (rule ccontr)
      assume "\<not> length ys \<le> length W"
      then have lt: "Suc k \<le> length ys" "k < ?n" using k(1,2) ly by auto
      from mono[OF lt(1)] ys have "sum_tokens (drop (?n - Suc k) H) \<le> sum_tokens ys" by simp
      with k(4) lt(2) b show False by simp
    qed
  qed
  have p4: "\<forall>pre m post. W = pre @ m # post \<longrightarrow> tokens m \<le> B - sum_tokens post"
  proof (intro allI impI)
    fix pre m post assume W: "W = pre @ m # post"
    let ?j = "length post"
    have "length W = k" using k(1,2) by simp
    then have "?j < k" using W by simp
    have "drop (?n - Suc ?j) H = m # post"
    proof -
      have "suffix (m # post) W" using W by (simp add: suffix_def)
      then have "suffix (m # post) H" using p1 suffix_order.trans by blast
      then show ?thesis by (auto simp: suffix_def)
    qed
    with k(3) \<open>?j < k\<close> show "tokens m \<le> B - sum_tokens post" by fastforce
  qed
  have p5: "H \<noteq> [] \<and> B < tokens (last H) \<longrightarrow> W = []"
  proof (intro impI, elim conjE)
    assume H: "H \<noteq> []" and big: "B < tokens (last H)"
    have d: "drop (?n - Suc 0) H = [last H]" using H
      by (cases H rule: rev_cases) auto
    show "W = []"
    proof (cases k)
      case 0 then show ?thesis using k(1,2) by simp
    next
      case (Suc i)
      then have "sum_tokens (drop (?n - Suc 0) H) \<le> B" using k(3) by blast
      with d big show ?thesis by simp
    qed
  qed
  have p6: "B = max_context_tokens cfg \<longrightarrow> get_context_window cfg H None = W"
    unfolding W_def by (simp add: get_context_window_default)
  from p1 p2 p3 p4 p5 p6 show ?thesis unfolding W_def by blast
qed

theorem get_context_window_longest_suffix_witness:
  "list_all (\<lambda>m. 0 \<le> tokens m) sample_history \<and> (0::int) \<le> 2500
   \<and> get_context_window default_settings sample_history (Some 2500) = drop 2 sample_history
   \<and> suffix (get_context_window default_settings sample_history (Some 2500)) sample_history
   \<and> sum_tokens (get_context_window default_settings sample_history (Some 2500)) \<le> 2500
   \<and> \<not> (\<exists>ys. suffix ys sample_history \<and> sum_tokens ys \<le> 2500
          \<and> length (get_context_window default_settings sample_history (Some 2500)) < length ys)"
proof -
  have h1: "\<forall>m\<in>set sample_history. 0 \<le> tokens m"
    by (simp add: sample_history_def sample_message_def)
  have h2: "(0::int) \<le> 2500" by simp
  have ev: "get_context_window default_settings sample_history (Some 2500) = drop 2 sample_history"
    by (simp add: get_context_window_def sample_history_def sample_message_def)
  from get_context_window_longest_suffix [OF h1 h2, of default_settings]
  have "suffix (get_context_window default_settings sample_history (Some 2500)) sample_history"
    and "sum_tokens (get_context_window default_settings sample_history (Some 2500)) \<le> 2500"
    and "\<not> (\<exists>ys. suffix ys sample_history \<and> sum_tokens ys \<le> 2500
          \<and> length (get_context_window default_settings sample_history (Some 2500)) < length ys)"
    by (blast, blast, fastforce)
  with h1 h2 ev show ?thesis by (simp add: list_all_iff)
qed

subsection \<open>Retrieval: filtering and ranking\<close>

lemma rank_mk_chunk: "rank (mk_chunk z) = Suc (fst z)"
  by (cases z) (simp add: mk_chunk_def)

lemma similarity_mk_chunk: "similarity_score (mk_chunk z) = 1 - snd (snd (snd z))"
  by (cases z) (simp add: mk_chunk_def)

lemma collect_chunks_filter:
  "collect_chunks cfg xs =
     map mk_chunk (filter (\<lambda>(i, doc, metadata, d). 1 - d \<ge> similarity_threshold cfg) xs)"
  by (induction cfg xs rule: collect_chunks.induct) (simp_all add: mk_chunk_def Let_def)

lemma filter_prefix_sorted:
  fixes f :: "'a \<Rightarrow> real"
  assumes "sorted (map f xs)"
  shows "filter (\<lambda>x. 1 - f x \<ge> t) xs = takeWhile (\<lambda>x. 1 - f x \<ge> t) xs"
  using assms
proof (induction xs)
  case Nil then show ?case by simp
next
  case (Cons x xs)
  show ?case
  proof (cases "1 - f x \<ge> t")
    case True with Cons show ?thesis by simp
  next
    case False
    with Cons.prems have "\<forall>y\<in>set xs. \<not> 1 - f y \<ge> t" by fastforce
    with False show ?thesis by (simp add: filter_empty_conv)
  qed
qed

lemma map_snd_enumerate_gen: "map (\<lambda>z. g (snd z)) (enumerate n xs) = map g xs"
  by (induction xs arbitrary: n) simp_all

lemma map_snd_zip_take_left: "map snd (zip xs ys) = take (length xs) ys"
proof (induction xs arbitrary: ys)
  case Nil then show ?case by simp
next
  case (Cons x xs) then show ?case by (cases ys) simp_all
qed

lemma triple_snd_enumerate_zip:
  "map (\<lambda>z. snd (snd (snd z))) (enumerate n (zip as (zip bs cs)))
     = take (length as) (take (length bs) cs)"
proof -
  have "map (\<lambda>z. snd (snd (snd z))) (enumerate n (zip as (zip bs cs)))
      = map (\<lambda>p. snd (snd p)) (zip as (zip bs cs))"
    by (rule map_snd_enumerate_gen)
  also have "\<dots> = map snd (map snd (zip as (zip bs cs)))" by simp
  also have "\<dots> = map snd (take (length as) (zip bs cs))"
    by (simp only: map_snd_zip_take_left)
  also have "\<dots> = take (length as) (map snd (zip bs cs))" by (simp only: take_map)
  also have "\<dots> = take (length as) (take (length bs) cs)"
    by (simp only: map_snd_zip_take_left)
  finally show ?thesis .
qed

lemma collect_chunks_ranked:
  fixes xs :: "(nat \<times> string \<times> chunk_metadata \<times> real) list"
  assumes idx: "map fst xs = [n..<n + length xs]"
    and srt: "sorted (map (\<lambda>z. snd (snd (snd z))) xs)"
  shows "\<exists>k\<le>length xs. collect_chunks cfg xs = map mk_chunk (take k xs)
           \<and> map rank (collect_chunks cfg xs) = [Suc n..<Suc n + k]"
proof -
  let ?P = "\<lambda>(i, doc, metadata, d). 1 - d \<ge> similarity_threshold cfg"
  let ?f = "\<lambda>z::nat \<times> string \<times> chunk_metadata \<times> real. snd (snd (snd z))"
  define k where "k = length (takeWhile ?P xs)"
  have P: "?P = (\<lambda>x. 1 - ?f x \<ge> similarity_threshold cfg)" by (auto simp: fun_eq_iff)
  have "filter ?P xs = takeWhile ?P xs"
    unfolding P using srt by (rule filter_prefix_sorted)
  also have "\<dots> = take k xs" unfolding k_def by (rule takeWhile_eq_take)
  finally have eq: "collect_chunks cfg xs = map mk_chunk (take k xs)"
    by (simp only: collect_chunks_filter)
  have k: "k \<le> length xs" by (simp add: k_def length_takeWhile_le)
  have "map rank (map mk_chunk (take k xs)) = map Suc (map fst (take k xs))"
    by (simp add: rank_mk_chunk)
  also have "\<dots> = map Suc (take k (map fst xs))" by (simp only: take_map)
  also have "\<dots> = map Suc (take k [n..<n + length xs])" by (simp only: idx)
  also have "\<dots> = map Suc [n..<n + k]" using k by (simp add: take_upt)
  also have "\<dots> = [Suc n..<Suc n + k]" by (simp add: map_Suc_upt)
  finally have "map rank (collect_chunks cfg xs) = [Suc n..<Suc n + k]" unfolding eq .
  with k eq show ?thesis by blast
qed

lemma collection_query_sorted:
  "sorted (hd (res_distances (fst (collection_query ev coll qe n flt))))"
  by (simp add: collection_query_def Let_def take_map [symmetric] sorted_wrt_take)

text \<open>
  C2 as stated fails: the index may return two chunks at the same distance, and both
  are returned with the same similarity score, so the sequence is not strictly
  descending.
\<close>

theorem format_results_ties_not_strict:
  "format_results default_settings tie_results = Inr tie_chunks
   \<and> \<not> sorted_wrt (\<lambda>a b. b < a) (map similarity_score tie_chunks)"
proof -
  have "format_results default_settings tie_results = Inr tie_chunks"
    by (simp add: format_results_def tie_results_def tie_chunks_def default_settings_def
        enumerate_eq_zip Let_def)
  moreover have "\<not> sorted_wrt (\<lambda>a b. b < a) (map similarity_score tie_chunks)"
    by (simp del: sorted_wrt.simps add: sorted_wrt2_simps tie_chunks_def)
  ultimately show ?thesis by simp
qed

lemma format_results_sorted_prefix:
  assumes ok: "format_results cfg results = Inr cs"
    and srt: "sorted (hd (res_distances results))"
  shows "(\<forall>c\<in>set cs. similarity_score c \<ge> similarity_threshold cfg)
       \<and> map similarity_score cs = map (\<lambda>d. 1 - d) (take (length cs) (hd (res_distances results)))
       \<and> sorted_wrt (\<lambda>a b. b \<le> a) (map similarity_score cs)
       \<and> map rank cs = [1..<Suc (length cs)]"
proof (cases "res_documents results \<noteq> [] \<and> hd (res_documents results) \<noteq> []")
  case False
  with ok have "cs = []" by (auto simp: format_results_def)
  then show ?thesis by simp
next
  case True
  let ?docs = "hd (res_documents results)" and ?mds = "hd (res_metadatas results)"
    and ?ds = "hd (res_distances results)"
  let ?zs = "enumerate 0 (zip ?docs (zip ?mds ?ds))"
  let ?m = "min (length ?docs) (min (length ?mds) (length ?ds))"
  let ?tds = "take (length ?docs) (take (length ?mds) ?ds)"
  from True ok have cs: "cs = collect_chunks cfg ?zs"
    by (auto simp: format_results_def split: if_splits)
  have fz: "map (\<lambda>z. snd (snd (snd z))) ?zs = ?tds"
    by (rule triple_snd_enumerate_zip)
  have "sorted (take (length ?mds) ?ds)" using srt by (rule sorted_wrt_take)
  then have "sorted ?tds" by (rule sorted_wrt_take)
  then have s: "sorted (map (\<lambda>z. snd (snd (snd z))) ?zs)"
    unfolding fz .
  have i: "map fst ?zs = [0..<0 + length ?zs]" by (simp add: map_fst_enumerate)
  have lz: "length ?zs = ?m" by simp
  from collect_chunks_ranked[OF i s, of cfg] obtain k where k: "k \<le> length ?zs"
    and eqk: "cs = map mk_chunk (take k ?zs)"
    and rkk: "map rank cs = [Suc 0..<Suc 0 + k]"
    unfolding cs by blast
  have kl: "k = length cs" using eqk k by simp
  have eq: "cs = map mk_chunk (take (length cs) ?zs)" using eqk kl by simp
  have rk: "map rank cs = [Suc 0..<Suc 0 + length cs]" using rkk kl by simp
  have lcs: "length cs \<le> ?m" using k kl lz by simp
  have thr: "\<forall>c\<in>set cs. similarity_score c \<ge> similarity_threshold cfg"
    unfolding cs collect_chunks_filter by (auto simp: similarity_mk_chunk)
  have "map similarity_score cs = map (\<lambda>z. 1 - snd (snd (snd z))) (take k ?zs)"
    unfolding eqk by (simp add: similarity_mk_chunk)
  also have "\<dots> = map (\<lambda>z. 1 - snd (snd (snd z))) (take (length cs) ?zs)"
    unfolding kl ..
  also have "\<dots> = map (\<lambda>d. 1 - d) (take (length cs) (map (\<lambda>z. snd (snd (snd z))) ?zs))"
    by (simp add: take_map comp_def)
  also have "\<dots> = map (\<lambda>d. 1 - d) (take (length cs) ?ds)"
    unfolding fz using lcs by (simp add: min.absorb1 min.absorb2)
  finally have sim: "map similarity_score cs = map (\<lambda>d. 1 - d) (take (length cs) ?ds)" .
  have "sorted (take (length cs) ?ds)" using srt by (rule sorted_wrt_take)
  then have desc: "sorted_wrt (\<lambda>a b. b \<le> a) (map similarity_score cs)"
    unfolding sim by (simp add: sorted_wrt_map) 
  from thr sim desc rk show ?thesis by simp
qed

text \<open>The modelled index returns its results nearest first, so the same holds end to end.\<close>

lemma retrieve_relevant_chunks_ranked:
  assumes "fst (retrieve_relevant_chunks ev cfg coll q ids k) = Inr cs"
  shows "(\<forall>c\<in>set cs. similarity_score c \<ge> similarity_threshold cfg)
       \<and> sorted_wrt (\<lambda>a b. b \<le> a) (map similarity_score cs)
       \<and> map rank cs = [1..<Suc (length cs)]"
proof -
  let ?r = "fst (collection_query ev coll (embed_query ev q)
                  (case k of None \<Rightarrow> top_k_chunks cfg | Some n \<Rightarrow> n) (build_where_filter ids))"
  have "format_results cfg ?r = Inr cs"
    using assms by (simp add: retrieve_relevant_chunks_def Let_def split: prod.splits)
  from format_results_sorted_prefix [OF this collection_query_sorted]
  show ?thesis by blast
qed

text \<open>
  C2, amended. For every result list that the index returns in ascending order of
  distance, every chunk that \<open>retrieve_relevant_chunks\<close> builds from it has similarity
  \<open>1 - distance\<close> at least the threshold, the chunks are the leading results in the
  order of the index, so their similarity never increases along the sequence (equal
  scores may follow each other), and their ranks are exactly \<open>1..N\<close>.
\<close>

theorem format_results_filtered_ranked:
  assumes ok: "format_results cfg results = Inr cs"
    and srt: "sorted (hd (res_distances results))"
  shows "(\<forall>c\<in>set cs. similarity_score c \<ge> similarity_threshold cfg)
       \<and> map similarity_score cs = map (\<lambda>d. 1 - d) (take (length cs) (hd (res_distances results)))
       \<and> sorted_wrt (\<lambda>a b. b \<le> a) (map similarity_score cs)
       \<and> map rank cs = [1..<Suc (length cs)]"
  using assms by (rule format_results_sorted_prefix)

theorem format_results_filtered_ranked_witness:
  "format_results default_settings scenario_results = Inr scenario_chunks
   \<and> sorted (hd (res_distances scenario_results))
   \<and> list_all (\<lambda>c. similarity_threshold default_settings \<le> similarity_score c) scenario_chunks
   \<and> map rank scenario_chunks = [1..<Suc (length scenario_chunks)]"
proof -
  have ok: "format_results default_settings scenario_results = Inr scenario_chunks"
    by (simp add: format_results_def scenario_results_def scenario_chunks_def
        default_settings_def enumerate_eq_zip Let_def)
  have srt: "sorted (hd (res_distances scenario_results))"
    by (simp add: scenario_results_def)
  from format_results_filtered_ranked [OF ok srt] ok srt
  show ?thesis by (simp add: list_all_iff)
qed

subsection \<open>A conversation turn\<close>

lemma hd_sort_key_least:
  fixes f :: "'a \<Rightarrow> int"
  assumes "xs \<noteq> []"
  shows "hd (sort_key f xs) \<in> set xs \<and> (\<forall>x\<in>set xs. f (hd (sort_key f xs)) \<le> f x)"
proof -
  let ?ys = "sort_key f xs"
  have ne: "?ys \<noteq> []" using assms by (metis length_0_conv length_sort)
  then obtain y ys where ys: "?ys = y # ys" by (cases ?ys) auto
  have "sorted (map f ?ys)" by (rule sorted_sort_key)
  then have "\<forall>x\<in>set ?ys. f y \<le> f x" unfolding ys by auto
  moreover have "set ?ys = set xs" by simp
  moreover have "y \<in> set ?ys" unfolding ys by simp
  ultimately show ?thesis unfolding ys by auto
qed

lemma get_next_sequence_number_max:
  "get_next_sequence_number db cid =
     (if filter (\<lambda>m. conversation_id m = cid) (messages db) = [] then 0
      else Max (sequence_number ` set (filter (\<lambda>m. conversation_id m = cid) (messages db))) + 1)"
proof -
  let ?ms = "filter (\<lambda>m. conversation_id m = cid) (messages db)"
  let ?ss = "sort_key (\<lambda>m. - sequence_number m) ?ms"
  show ?thesis
  proof (cases "?ms = []")
    case True
    then show ?thesis by (simp add: get_next_sequence_number_def)
  next
    case False
    then have ne: "?ss \<noteq> []" by (metis length_0_conv length_sort)
    from hd_sort_key_least[OF False, of "\<lambda>m. - sequence_number m"]
    have mem: "hd ?ss \<in> set ?ms" and le: "\<forall>x\<in>set ?ms. sequence_number x \<le> sequence_number (hd ?ss)"
      by auto
    have "Max (sequence_number ` set ?ms) = sequence_number (hd ?ss)"
      by (rule Max_eqI) (use mem le in auto)
    moreover have "get_next_sequence_number db cid = sequence_number (hd ?ss) + 1"
      using ne unfolding get_next_sequence_number_def by (cases ?ss) auto
    ultimately show ?thesis using False by simp
  qed
qed

lemma get_conversation_None_iff:
  "get_conversation db cid = None \<longleftrightarrow> cid \<notin> conv_id ` set (conversations db)"
  by (auto simp: get_conversation_def find_None_iff)

lemma get_conversation_Some_id:
  "get_conversation db cid = Some c \<Longrightarrow> conv_id c = cid \<and> c \<in> set (conversations db)"
  by (auto simp: get_conversation_def find_Some_iff)

lemma find_map_update:
  assumes "find (\<lambda>c. conv_id c = cid) cs = Some c" and "conv_id c' = cid"
  shows "find (\<lambda>c. conv_id c = cid) (map (\<lambda>c. if conv_id c = cid then c' else c) cs) = Some c'"
  using assms by (induction cs) (auto split: if_splits)

lemma turn_unfold:
  assumes c: "get_conversation db cid = Some c"
  shows "add_message_and_get_response ev cfg fr db coll cid txt =
     (case turn_retrieval ev cfg coll c txt of
        (Inl e, coll') \<Rightarrow> (Inl e, db, coll')
      | (Inr rc, coll') \<Rightarrow>
          (case generate_response ev cfg (get_messages db cid @ [turn_user_message fr db cid txt])
                  (turn_rag_context rc) None of
             Inl e \<Rightarrow> (Inl e, db, coll')
           | Inr resp \<Rightarrow>
               (Inr \<lparr>user_message = turn_user_message fr db cid txt,
                     assistant_message = turn_assistant_message fr db cid rc resp,
                     res_conversation = turn_conversation fr c txt resp,
                     retrieved_context = (if conv_mode c = Grounded then Some rc else None)\<rparr>,
                db\<lparr>messages := messages db @ [turn_user_message fr db cid txt,
                                               turn_assistant_message fr db cid rc resp],
                   conversations := map (\<lambda>x. if conv_id x = cid then turn_conversation fr c txt resp else x)
                                        (conversations db)\<rparr>,
                coll')))"
  unfolding add_message_and_get_response_def Let_def c option.case
    turn_retrieval_def [symmetric] turn_user_message_def [symmetric]
  by (simp add: turn_rag_context_def turn_assistant_message_def turn_conversation_def
        turn_user_message_def split: prod.splits sum.splits)

lemma turn_success_shape:
  assumes t: "add_message_and_get_response ev cfg fr db coll cid txt = (Inr r, db', coll')"
  shows "\<exists>c rc resp. get_conversation db cid = Some c
     \<and> turn_retrieval ev cfg coll c txt = (Inr rc, coll')
     \<and> generate_response ev cfg (get_messages db cid @ [turn_user_message fr db cid txt])
          (turn_rag_context rc) None = Inr resp
     \<and> r = \<lparr>user_message = turn_user_message fr db cid txt,
             assistant_message = turn_assistant_message fr db cid rc resp,
             res_conversation = turn_conversation fr c txt resp,
             retrieved_context = (if conv_mode c = Grounded then Some rc else None)\<rparr>
     \<and> db' = db\<lparr>messages := messages db @ [turn_user_message fr db cid txt,
                                               turn_assistant_message fr db cid rc resp],
                 conversations := map (\<lambda>x. if conv_id x = cid then turn_conversation fr c txt resp else x)
                                      (conversations db)\<rparr>"
proof -
  obtain c where c: "get_conversation db cid = Some c"
    using t by (cases "get_conversation db cid") (simp_all add: add_message_and_get_response_def)
  obtain rr coll1 where ret: "turn_retrieval ev cfg coll c txt = (rr, coll1)"
    by (cases "turn_retrieval ev cfg coll c txt")
  from t have t': "(case rr of Inl e \<Rightarrow> (Inl e, db, coll1)
      | Inr rc \<Rightarrow>
          (case generate_response ev cfg (get_messages db cid @ [turn_user_message fr db cid txt])
                  (turn_rag_context rc) None of
             Inl e \<Rightarrow> (Inl e, db, coll1)
           | Inr resp \<Rightarrow>
               (Inr \<lparr>user_message = turn_user_message fr db cid txt,
                     assistant_message = turn_assistant_message fr db cid rc resp,
                     res_conversation = turn_conversation fr c txt resp,
                     retrieved_context = (if conv_mode c = Grounded then Some rc else None)\<rparr>,
                db\<lparr>messages := messages db @ [turn_user_message fr db cid txt,
                                               turn_assistant_message fr db cid rc resp],
                   conversations := map (\<lambda>x. if conv_id x = cid then turn_conversation fr c txt resp else x)
                                        (conversations db)\<rparr>,
                coll1))) = (Inr r, db', coll')"
    unfolding turn_unfold [OF c] ret by simp
  then obtain rc where rc: "rr = Inr rc" by (cases rr) simp_all
  from t' rc obtain resp where resp: "generate_response ev cfg
      (get_messages db cid @ [turn_user_message fr db cid txt]) (turn_rag_context rc) None = Inr resp"
    by (cases "generate_response ev cfg
      (get_messages db cid @ [turn_user_message fr db cid txt]) (turn_rag_context rc) None") simp_all
  from t' rc resp c ret show ?thesis by auto
qed


lemma generate_response_Inr:
  assumes "generate_response ev cfg msgs rag sp = Inr resp"
  shows "agenerate ev (format_messages_for_llm (get_context_window cfg msgs None)
                         (Some (select_system_prompt rag sp))) = Inr (resp_content resp)
       \<and> input_tokens resp = sum_tokens (get_context_window cfg msgs None)
       \<and> output_tokens resp = count_tokens (resp_content resp)
       \<and> resp_total_tokens resp = input_tokens resp + output_tokens resp"
  using assms unfolding generate_response_def Let_def
  by (cases "agenerate ev (format_messages_for_llm (get_context_window cfg msgs None)
                         (Some (select_system_prompt rag sp)))") auto

lemma retrieve_relevant_chunks_log:
  "snd (retrieve_relevant_chunks ev cfg coll q ids k) =
     coll\<lparr>query_log := query_log coll @
        [\<lparr>q_embedding = embed_query ev q,
          q_n_results = (case k of None \<Rightarrow> top_k_chunks cfg | Some n \<Rightarrow> n),
          q_where = build_where_filter ids\<rparr>]\<rparr>"
  by (simp add: retrieve_relevant_chunks_def collection_query_def Let_def)

lemma sample_open_conv: "get_conversation sample_db ''c1'' = Some open_conversation"
  by (simp add: get_conversation_def sample_db_def open_conversation_def)

lemma sample_grounded_conv: "get_conversation sample_db ''c2'' = Some grounded_conversation"
  by (simp add: get_conversation_def sample_db_def open_conversation_def grounded_conversation_def)

lemma sample_generate:
  "\<exists>resp. generate_response sample_env cfg msgs rag sp = Inr resp \<and> resp_content resp = ''Hi there!''"
  by (simp add: generate_response_def sample_env_def Let_def)

lemma sample_open_turn:
  "\<exists>r db' coll'. add_message_and_get_response sample_env default_settings sample_fresh sample_db
       sample_collection ''c1'' ''Hello'' = (Inr r, db', coll')"
proof -
  obtain resp where g: "generate_response sample_env default_settings
      (get_messages sample_db ''c1'' @ [turn_user_message sample_fresh sample_db ''c1'' ''Hello''])
      (turn_rag_context []) None = Inr resp"
    using sample_generate by blast
  have rt: "turn_retrieval sample_env default_settings sample_collection open_conversation ''Hello''
      = (Inr [], sample_collection)"
    by (simp add: turn_retrieval_def open_conversation_def)
  show ?thesis unfolding turn_unfold [OF sample_open_conv] rt prod.case sum.case g by simp
qed

text \<open>
  A turn on an existing conversation succeeds as soon as the language model answers:
  the modelled index never fails.
\<close>

lemma retrieve_relevant_chunks_Inr:
  "\<exists>rc. fst (retrieve_relevant_chunks ev cfg coll q ids k) = Inr rc"
  by (simp add: retrieve_relevant_chunks_def collection_query_def format_results_def Let_def)

lemma turn_succeeds:
  assumes c: "get_conversation db cid = Some c"
    and llm: "\<And>ms. \<exists>reply. agenerate ev ms = Inr reply"
  shows "\<exists>r db' coll'. add_message_and_get_response ev cfg fr db coll cid txt = (Inr r, db', coll')"
proof -
  obtain rc coll1 where rt: "turn_retrieval ev cfg coll c txt = (Inr rc, coll1)"
  proof (cases "conv_mode c = Grounded \<and> document_ids c \<noteq> []")
    case True
    obtain rc where "fst (retrieve_relevant_chunks ev cfg coll txt (document_ids c) None) = Inr rc"
      using retrieve_relevant_chunks_Inr by blast
    then have "turn_retrieval ev cfg coll c txt
        = (Inr rc, snd (retrieve_relevant_chunks ev cfg coll txt (document_ids c) None))"
      using True by (simp add: turn_retrieval_def prod_eq_iff)
    then show ?thesis using that by blast
  next
    case False
    then have "turn_retrieval ev cfg coll c txt = (Inr [], coll)"
      by (auto simp: turn_retrieval_def)
    then show ?thesis using that by blast
  qed
  obtain resp where g: "generate_response ev cfg
      (get_messages db cid @ [turn_user_message fr db cid txt]) (turn_rag_context rc) None = Inr resp"
  proof -
    let ?ms = "format_messages_for_llm
        (get_context_window cfg (get_messages db cid @ [turn_user_message fr db cid txt]) None)
        (Some (select_system_prompt (turn_rag_context rc) None))"
    from llm [of ?ms] obtain reply where "agenerate ev ?ms = Inr reply" by blast
    then show ?thesis using that by (simp add: generate_response_def Let_def)
  qed
  show ?thesis unfolding turn_unfold [OF c] rt prod.case sum.case g by simp
qed

text \<open>
  C5. For a conversation identifier that names no existing conversation the turn fails
  at once with "Conversation not found"; the database and the index are returned as they
  were: no message is created and no conversation is modified.
\<close>

theorem turn_conversation_not_found:
  assumes "cid \<notin> conv_id ` set (conversations db)"
  shows "add_message_and_get_response ev cfg fr db coll cid txt
           = (Inl (ValueError ''Conversation not found''), db, coll)"
  using assms by (simp add: add_message_and_get_response_def get_conversation_None_iff [symmetric])

theorem turn_conversation_not_found_witness:
  "''c9'' \<notin> conv_id ` set (conversations sample_db)
   \<and> add_message_and_get_response sample_env default_settings sample_fresh sample_db
         sample_collection ''c9'' ''Hello''
       = (Inl (ValueError ''Conversation not found''), sample_db, sample_collection)"
proof -
  have h: "''c9'' \<notin> conv_id ` set (conversations sample_db)"
    by (simp add: sample_db_def open_conversation_def grounded_conversation_def)
  from turn_conversation_not_found [OF h] h show ?thesis by simp
qed

text \<open>
  C3. In a turn the user message gets the conversation's maximal sequence number plus
  one, or 0 when the conversation has no message, and the assistant message gets the
  user message's number plus one; for an empty conversation these are 0 and 1.
\<close>

theorem turn_sequence_numbers:
  assumes t: "add_message_and_get_response ev cfg fr db coll cid txt = (Inr r, db', coll')"
  shows "sequence_number (user_message r) =
           (if filter (\<lambda>m. conversation_id m = cid) (messages db) = [] then 0
            else Max (sequence_number ` set (filter (\<lambda>m. conversation_id m = cid) (messages db))) + 1)
       \<and> sequence_number (assistant_message r) = sequence_number (user_message r) + 1
       \<and> (filter (\<lambda>m. conversation_id m = cid) (messages db) = []
            \<longrightarrow> sequence_number (user_message r) = 0 \<and> sequence_number (assistant_message r) = 1)"
proof -
  from turn_success_shape [OF t] obtain c rc resp where
    r: "r = \<lparr>user_message = turn_user_message fr db cid txt,
             assistant_message = turn_assistant_message fr db cid rc resp,
             res_conversation = turn_conversation fr c txt resp,
             retrieved_context = (if conv_mode c = Grounded then Some rc else None)\<rparr>"
    by blast
  have u: "sequence_number (user_message r) = get_next_sequence_number db cid"
    by (simp add: r turn_user_message_def)
  have a: "sequence_number (assistant_message r) = get_next_sequence_number db cid + 1"
    by (simp add: r turn_assistant_message_def)
  show ?thesis unfolding u a get_next_sequence_number_max by simp
qed

theorem turn_sequence_numbers_witness:
  "\<exists>r db' coll'. add_message_and_get_response sample_env default_settings sample_fresh sample_db
       sample_collection ''c1'' ''Hello'' = (Inr r, db', coll')
     \<and> sequence_number (user_message r) = 0 \<and> sequence_number (assistant_message r) = 1"
proof -
  from sample_open_turn obtain r db' coll' where
    e: "add_message_and_get_response sample_env default_settings sample_fresh sample_db
       sample_collection ''c1'' ''Hello'' = (Inr r, db', coll')" by blast
  have "filter (\<lambda>m. conversation_id m = ''c1'') (messages sample_db) = []"
    by (simp add: sample_db_def)
  with turn_sequence_numbers [OF e] e show ?thesis by blast
qed

text \<open>
  C9. After a successful turn the conversation's \<open>total_tokens\<close> has grown by the user
  message's token estimate plus the assistant message's token estimate (the estimate
  of its content), its \<open>updated_at\<close> is the user message's creation time, nothing else
  of the conversation row has changed, and the database holds the updated row.
\<close>

theorem turn_updates_totals:
  assumes t: "add_message_and_get_response ev cfg fr db coll cid txt = (Inr r, db', coll')"
    and c: "get_conversation db cid = Some c"
  shows "total_tokens (res_conversation r)
           = total_tokens c + (tokens (user_message r) + tokens (assistant_message r))
       \<and> tokens (user_message r) = count_tokens txt
       \<and> tokens (assistant_message r) = count_tokens (content (assistant_message r))
       \<and> updated_at (res_conversation r) = msg_created_at (user_message r)
       \<and> res_conversation r = c\<lparr>total_tokens := total_tokens (res_conversation r),
                                  updated_at := updated_at (res_conversation r)\<rparr>
       \<and> get_conversation db' cid = Some (res_conversation r)"
proof -
  from turn_success_shape [OF t] c obtain rc resp where
    g: "generate_response ev cfg (get_messages db cid @ [turn_user_message fr db cid txt])
          (turn_rag_context rc) None = Inr resp"
    and r: "r = \<lparr>user_message = turn_user_message fr db cid txt,
             assistant_message = turn_assistant_message fr db cid rc resp,
             res_conversation = turn_conversation fr c txt resp,
             retrieved_context = (if conv_mode c = Grounded then Some rc else None)\<rparr>"
    and d: "db' = db\<lparr>messages := messages db @ [turn_user_message fr db cid txt,
                                               turn_assistant_message fr db cid rc resp],
                 conversations := map (\<lambda>x. if conv_id x = cid then turn_conversation fr c txt resp else x)
                                      (conversations db)\<rparr>"
    by auto
  from generate_response_Inr [OF g]
  have o: "output_tokens resp = count_tokens (resp_content resp)" by simp
  have cid: "conv_id (turn_conversation fr c txt resp) = cid"
    using get_conversation_Some_id [OF c] by (simp add: turn_conversation_def)
  have f: "get_conversation db' cid = Some (turn_conversation fr c txt resp)"
    unfolding d get_conversation_def using find_map_update [OF c [unfolded get_conversation_def] cid]
    by simp
  show ?thesis
    using o f by (simp add: r turn_user_message_def turn_assistant_message_def turn_conversation_def)
qed

theorem turn_updates_totals_witness:
  "\<exists>r db' coll'. add_message_and_get_response sample_env default_settings sample_fresh sample_db
       sample_collection ''c1'' ''Hello'' = (Inr r, db', coll')
     \<and> get_conversation sample_db ''c1'' = Some open_conversation
     \<and> total_tokens open_conversation = 0
     \<and> tokens (user_message r) = 1 \<and> tokens (assistant_message r) = 2
     \<and> total_tokens (res_conversation r) = 3
     \<and> updated_at (res_conversation r) = ''2024-01-01T10:00:00''
     \<and> get_conversation db' ''c1'' = Some (res_conversation r)"
proof -
  from sample_open_turn obtain r db' coll' where
    e: "add_message_and_get_response sample_env default_settings sample_fresh sample_db
       sample_collection ''c1'' ''Hello'' = (Inr r, db', coll')" by blast
  from turn_success_shape [OF e] obtain c rc resp where
    g: "generate_response sample_env default_settings
          (get_messages sample_db ''c1'' @ [turn_user_message sample_fresh sample_db ''c1'' ''Hello''])
          (turn_rag_context rc) None = Inr resp"
    and r: "r = \<lparr>user_message = turn_user_message sample_fresh sample_db ''c1'' ''Hello'',
             assistant_message = turn_assistant_message sample_fresh sample_db ''c1'' rc resp,
             res_conversation = turn_conversation sample_fresh c ''Hello'' resp,
             retrieved_context = (if conv_mode c = Grounded then Some rc else None)\<rparr>"
    by blast
  from g have "resp_content resp = ''Hi there!''"
    by (auto simp: generate_response_def sample_env_def Let_def)
  then have ct: "content (assistant_message r) = ''Hi there!''"
    by (simp add: r turn_assistant_message_def)
  have um: "msg_created_at (user_message r) = ''2024-01-01T10:00:00''"
    by (simp add: r turn_user_message_def sample_fresh_def)
  have z: "total_tokens open_conversation = 0" by (simp add: open_conversation_def)
  from turn_updates_totals [OF e sample_open_conv] ct um z e sample_open_conv
  show ?thesis by (simp add: count_tokens_def)
qed

lemma turn_retrieval_log:
  "snd (turn_retrieval ev cfg coll c txt) =
     (if conv_mode c = Grounded \<and> document_ids c \<noteq> []
      then coll\<lparr>query_log := query_log coll @
              [\<lparr>q_embedding = embed_query ev txt, q_n_results = top_k_chunks cfg,
                q_where = build_where_filter (document_ids c)\<rparr>]\<rparr>
      else coll)"
  by (simp add: turn_retrieval_def retrieve_relevant_chunks_log)

lemma turn_collection:
  assumes c: "get_conversation db cid = Some c"
    and t: "add_message_and_get_response ev cfg fr db coll cid txt = (res, db', coll')"
  shows "coll' = snd (turn_retrieval ev cfg coll c txt)"
proof -
  obtain rr coll1 where ret: "turn_retrieval ev cfg coll c txt = (rr, coll1)"
    by (cases "turn_retrieval ev cfg coll c txt")
  from t show ?thesis
    unfolding turn_unfold [OF c] ret
    by (auto split: sum.splits)
qed

text \<open>
  C4. In a turn on an existing conversation the index is queried if and only if the
  conversation is grounded and its document set is not empty, and then once, scoped to
  that document set; in open chat the index is left as it was. The assistant message of
  a successful turn carries metadata if and only if the index was queried and at least
  one chunk passed the filter, and the metadata is the number of these chunks and their
  similarity scores.
\<close>

theorem turn_retrieval_iff_grounded:
  assumes c: "get_conversation db cid = Some c"
    and t: "add_message_and_get_response ev cfg fr db coll cid txt = (res, db', coll')"
  shows "(query_log coll' \<noteq> query_log coll \<longleftrightarrow> conv_mode c = Grounded \<and> document_ids c \<noteq> [])
       \<and> (conv_mode c = Grounded \<and> document_ids c \<noteq> [] \<longrightarrow>
            query_log coll' = query_log coll @
              [\<lparr>q_embedding = embed_query ev txt, q_n_results = top_k_chunks cfg,
                q_where = Some (DocumentIdIn (document_ids c))\<rparr>])
       \<and> (conv_mode c = OpenChat \<longrightarrow> coll' = coll)
       \<and> (\<forall>r. res = Inr r \<longrightarrow>
            (msg_extra_data (assistant_message r) \<noteq> None \<longleftrightarrow>
               query_log coll' \<noteq> query_log coll
               \<and> (\<exists>rc. fst (retrieve_relevant_chunks ev cfg coll txt (document_ids c) None) = Inr rc
                        \<and> rc \<noteq> []))
          \<and> (\<forall>rc. query_log coll' \<noteq> query_log coll
                  \<and> fst (retrieve_relevant_chunks ev cfg coll txt (document_ids c) None) = Inr rc
                  \<and> rc \<noteq> [] \<longrightarrow>
                msg_extra_data (assistant_message r)
                  = Some \<lparr>rag_chunks_used = length rc,
                          rag_similarity_scores = map similarity_score rc\<rparr>))"
proof -
  let ?inv = "conv_mode c = Grounded \<and> document_ids c \<noteq> []"
  have coll': "coll' = snd (turn_retrieval ev cfg coll c txt)"
    by (rule turn_collection [OF c t])
  have p1: "query_log coll' \<noteq> query_log coll \<longleftrightarrow> ?inv"
    unfolding coll' turn_retrieval_log by simp
  have p2: "?inv \<longrightarrow> query_log coll' = query_log coll @
              [\<lparr>q_embedding = embed_query ev txt, q_n_results = top_k_chunks cfg,
                q_where = Some (DocumentIdIn (document_ids c))\<rparr>]"
    unfolding coll' turn_retrieval_log by (simp add: build_where_filter_def)
  have p3: "conv_mode c = OpenChat \<longrightarrow> coll' = coll"
    unfolding coll' turn_retrieval_log by simp
  have p4: "(msg_extra_data (assistant_message r) \<noteq> None \<longleftrightarrow>
               query_log coll' \<noteq> query_log coll
               \<and> (\<exists>rc. fst (retrieve_relevant_chunks ev cfg coll txt (document_ids c) None) = Inr rc
                        \<and> rc \<noteq> []))
          \<and> (\<forall>rc. query_log coll' \<noteq> query_log coll
                  \<and> fst (retrieve_relevant_chunks ev cfg coll txt (document_ids c) None) = Inr rc
                  \<and> rc \<noteq> [] \<longrightarrow>
                msg_extra_data (assistant_message r)
                  = Some \<lparr>rag_chunks_used = length rc,
                          rag_similarity_scores = map similarity_score rc\<rparr>)"
    if res: "res = Inr r" for r
  proof -
    from turn_success_shape [OF t [unfolded res]] c obtain rc resp where
      ret: "turn_retrieval ev cfg coll c txt = (Inr rc, coll')"
      and r: "r = \<lparr>user_message = turn_user_message fr db cid txt,
             assistant_message = turn_assistant_message fr db cid rc resp,
             res_conversation = turn_conversation fr c txt resp,
             retrieved_context = (if conv_mode c = Grounded then Some rc else None)\<rparr>"
      by auto
    have md: "msg_extra_data (assistant_message r) =
        (if rc \<noteq> [] then Some \<lparr>rag_chunks_used = length rc,
                                rag_similarity_scores = map similarity_score rc\<rparr> else None)"
      by (simp add: r turn_assistant_message_def)
    show ?thesis
    proof (cases ?inv)
      case True
      with ret have "fst (retrieve_relevant_chunks ev cfg coll txt (document_ids c) None) = Inr rc"
        by (simp add: turn_retrieval_def)
      with True p1 md show ?thesis by auto
    next
      case False
      with ret have "rc = []" by (auto simp: turn_retrieval_def)
      with False p1 md show ?thesis by auto
    qed
  qed
  from p1 p2 p3 p4 show ?thesis by blast
qed

lemma sample_retrieve:
  "retrieve_relevant_chunks sample_env default_settings sample_collection ''Hello'' [''d1''] None
     = (Inr [\<lparr>rc_content = ''alpha'', rc_metadata = sample_metadata,
              similarity_score = 9 / 10, rank = 1\<rparr>],
        sample_collection\<lparr>query_log :=
          [\<lparr>q_embedding = [5], q_n_results = 5, q_where = Some (DocumentIdIn [''d1''])\<rparr>]\<rparr>)"
  by (simp add: retrieve_relevant_chunks_def collection_query_def build_where_filter_def
      format_results_def sample_env_def default_settings_def sample_collection_def
      sample_metadata_def enumerate_eq_zip Let_def)

lemma sample_grounded_turn:
  "\<exists>r db' coll'. add_message_and_get_response sample_env default_settings sample_fresh sample_db
       sample_collection ''c2'' ''Hello'' = (Inr r, db', coll')"
proof -
  let ?rc = "[\<lparr>rc_content = ''alpha'', rc_metadata = sample_metadata,
              similarity_score = 9 / 10, rank = 1\<rparr>]"
  obtain resp where g: "generate_response sample_env default_settings
      (get_messages sample_db ''c2'' @ [turn_user_message sample_fresh sample_db ''c2'' ''Hello''])
      (turn_rag_context ?rc) None = Inr resp"
    using sample_generate by blast
  have rt: "turn_retrieval sample_env default_settings sample_collection grounded_conversation ''Hello''
      = (Inr ?rc, sample_collection\<lparr>query_log :=
          [\<lparr>q_embedding = [5], q_n_results = 5, q_where = Some (DocumentIdIn [''d1''])\<rparr>]\<rparr>)"
    by (simp add: turn_retrieval_def grounded_conversation_def sample_retrieve)
  show ?thesis unfolding turn_unfold [OF sample_grounded_conv] rt prod.case sum.case g by simp
qed

theorem turn_retrieval_iff_grounded_witness:
  "\<exists>r db' coll'. add_message_and_get_response sample_env default_settings sample_fresh sample_db
       sample_collection ''c2'' ''Hello'' = (Inr r, db', coll')
     \<and> get_conversation sample_db ''c2'' = Some grounded_conversation
     \<and> conv_mode grounded_conversation = Grounded
     \<and> document_ids grounded_conversation = [''d1'']
     \<and> query_log sample_collection = []
     \<and> query_log coll' = [\<lparr>q_embedding = [5], q_n_results = 5,
                             q_where = Some (DocumentIdIn [''d1''])\<rparr>]
     \<and> msg_extra_data (assistant_message r)
         = Some \<lparr>rag_chunks_used = 1, rag_similarity_scores = [9 / 10]\<rparr>"
proof -
  from sample_grounded_turn obtain r db' coll' where
    e: "add_message_and_get_response sample_env default_settings sample_fresh sample_db
       sample_collection ''c2'' ''Hello'' = (Inr r, db', coll')" by blast
  have g: "conv_mode grounded_conversation = Grounded"
    "document_ids grounded_conversation = [''d1'']"
    by (simp_all add: grounded_conversation_def)
  have q: "query_log sample_collection = []" by (simp add: sample_collection_def)
  have em: "embed_query sample_env ''Hello'' = [5]" "top_k_chunks default_settings = 5"
    by (simp_all add: sample_env_def default_settings_def)
  from turn_retrieval_iff_grounded [OF sample_grounded_conv e] g q em sample_retrieve
  have "query_log coll' = [\<lparr>q_embedding = [5], q_n_results = 5,
                             q_where = Some (DocumentIdIn [''d1''])\<rparr>]"
    and "msg_extra_data (assistant_message r)
         = Some \<lparr>rag_chunks_used = 1, rag_similarity_scores = [9 / 10]\<rparr>"
    by auto
  with e sample_grounded_conv g q show ?thesis by blast
qed

subsection \<open>Response generation\<close>

lemma prompts_differ: "\<not> prefix grounded_system_prompt default_system_prompt"
  by (simp add: grounded_system_prompt_def default_system_prompt_def)

lemma prompts_nonempty: "default_system_prompt \<noteq> []" "grounded_system_prompt \<noteq> []"
  by (simp_all add: grounded_system_prompt_def default_system_prompt_def)

lemma select_system_prompt_nonempty: "select_system_prompt rag None \<noteq> []"
  by (simp add: select_system_prompt_def prompts_nonempty)

lemma fallback_in_prompt:
  \<open>sublist ''say "I don't have that information in the uploaded documents"'' grounded_system_prompt\<close>
proof -
  have \<open>grounded_system_prompt = take 264 grounded_system_prompt
      @ ''say "I don't have that information in the uploaded documents"''
      @ drop 325 grounded_system_prompt\<close>
    by (simp add: grounded_system_prompt_def)
  then show ?thesis unfolding sublist_def by blast
qed

text \<open>
  C8. When \<open>generate_response\<close> returns, the model was sent one system instruction
  followed by the messages of the context window; \<open>input_tokens\<close> is the token total of
  these window messages alone, \<open>output_tokens\<close> the estimate of the returned text, and
  \<open>total_tokens\<close> their sum. The instruction is the documents-only one (which carries
  the fixed fallback sentence, see \<open>fallback_in_prompt\<close>) followed by the grounding text
  if and only if a non-empty grounding text is supplied, and the default one otherwise.
\<close>

theorem generate_response_accounting:
  assumes g: "generate_response ev cfg msgs rag_context None = Inr resp"
  shows "agenerate ev (SystemMessage (select_system_prompt rag_context None)
                        # map to_langchain (get_context_window cfg msgs None))
           = Inr (resp_content resp)
       \<and> input_tokens resp = sum_tokens (get_context_window cfg msgs None)
       \<and> output_tokens resp = count_tokens (resp_content resp)
       \<and> resp_total_tokens resp = input_tokens resp + output_tokens resp
       \<and> select_system_prompt rag_context None =
            (if truthy rag_context then grounded_system_prompt @ the rag_context
             else default_system_prompt)
       \<and> (prefix grounded_system_prompt (select_system_prompt rag_context None)
            \<longleftrightarrow> truthy rag_context)
       \<and> (select_system_prompt rag_context None = default_system_prompt
            \<longleftrightarrow> \<not> truthy rag_context)"
proof -
  from generate_response_Inr [OF g]
  have a: "agenerate ev (format_messages_for_llm (get_context_window cfg msgs None)
                         (Some (select_system_prompt rag_context None))) = Inr (resp_content resp)"
    and b: "input_tokens resp = sum_tokens (get_context_window cfg msgs None)"
      "output_tokens resp = count_tokens (resp_content resp)"
      "resp_total_tokens resp = input_tokens resp + output_tokens resp"
    by simp_all
  have f: "format_messages_for_llm ms (Some (select_system_prompt rag_context None))
      = SystemMessage (select_system_prompt rag_context None) # map to_langchain ms" for ms
    by (simp add: format_messages_for_llm_def select_system_prompt_nonempty del: to_langchain.simps)
  have s: "select_system_prompt rag_context None =
            (if truthy rag_context then grounded_system_prompt @ the rag_context
             else default_system_prompt)"
    by (simp add: select_system_prompt_def)
  have p: "prefix grounded_system_prompt (select_system_prompt rag_context None)
            \<longleftrightarrow> truthy rag_context"
    unfolding s using prompts_differ by simp
  have q: "select_system_prompt rag_context None = default_system_prompt
            \<longleftrightarrow> \<not> truthy rag_context"
  proof (cases "truthy rag_context")
    case True
    have "grounded_system_prompt @ the rag_context \<noteq> default_system_prompt"
      using prompts_differ by (metis prefixI)
    with True show ?thesis unfolding s by simp
  next
    case False then show ?thesis unfolding s by simp
  qed
  from a [unfolded f] b s p q show ?thesis by blast
qed

lemma sample_window:
  "get_context_window default_settings sample_history None = sample_history"
  by (simp add: get_context_window_def default_settings_def sample_history_def sample_message_def)

theorem generate_response_accounting_witness:
  "\<exists>resp. generate_response sample_env default_settings sample_history None None = Inr resp
     \<and> resp_content resp = ''Hi there!''
     \<and> input_tokens resp = 4000 \<and> output_tokens resp = 2 \<and> resp_total_tokens resp = 4002
     \<and> select_system_prompt None None = default_system_prompt"
proof -
  from sample_generate obtain resp where
    g: "generate_response sample_env default_settings sample_history None None = Inr resp"
    and c: "resp_content resp = ''Hi there!''" by blast
  have w: "sum_tokens (get_context_window default_settings sample_history None) = 4000"
    unfolding sample_window by (simp add: sample_history_def sample_message_def)
  from generate_response_accounting [OF g] c w g
  show ?thesis by (auto simp: count_tokens_def)
qed

subsection \<open>Deleting a document's chunks\<close>

lemma delete_document_chunks_entries:
  "entries (delete_document_chunks coll D) =
     filter (\<lambda>e. entry_id e \<notin> entry_id ` {x \<in> set (entries coll). md_document_id (entry_metadata x) = D})
       (entries coll)"
proof (cases "collection_get coll (Some (DocumentIdEq D)) = []")
  case True
  then have "\<forall>x\<in>set (entries coll). md_document_id (entry_metadata x) \<noteq> D"
    by (auto simp: collection_get_def filter_empty_conv)
  then have e: "{x \<in> set (entries coll). md_document_id (entry_metadata x) = D} = {}" by auto
  show ?thesis unfolding e using True by (simp add: delete_document_chunks_def)
next
  case False
  have "set (collection_get coll (Some (DocumentIdEq D)))
      = entry_id ` {x \<in> set (entries coll). md_document_id (entry_metadata x) = D}"
    by (auto simp: collection_get_def)
  with False show ?thesis
    by (simp add: delete_document_chunks_def collection_delete_def Let_def)
qed

lemma delete_document_chunks_removes_all:
  "\<forall>e\<in>set (entries (delete_document_chunks coll D)). md_document_id (entry_metadata e) \<noteq> D"
  unfolding delete_document_chunks_entries by auto

text \<open>
  C7. In an index whose chunk ids are unique, \<open>delete_document_chunks D\<close> leaves exactly
  the entries whose metadata names another document, in their order: every chunk of \<open>D\<close>
  is removed and every chunk of another document stays. (That no chunk of \<open>D\<close> is left
  holds for every index, see \<open>delete_document_chunks_removes_all\<close>.)
\<close>

theorem delete_document_chunks_exact:
  assumes ids: "distinct (map entry_id (entries coll))"
  shows "entries (delete_document_chunks coll D)
           = filter (\<lambda>e. md_document_id (entry_metadata e) \<noteq> D) (entries coll)
       \<and> (\<forall>e\<in>set (entries (delete_document_chunks coll D)). md_document_id (entry_metadata e) \<noteq> D)
       \<and> (\<forall>e\<in>set (entries coll). md_document_id (entry_metadata e) \<noteq> D
              \<longrightarrow> e \<in> set (entries (delete_document_chunks coll D)))
       \<and> query_log (delete_document_chunks coll D) = query_log coll"
proof -
  have inj: "inj_on entry_id (set (entries coll))"
    using ids by (simp add: distinct_map)
  have key: "entry_id e \<notin> entry_id ` {x \<in> set (entries coll). md_document_id (entry_metadata x) = D}
      \<longleftrightarrow> md_document_id (entry_metadata e) \<noteq> D" if "e \<in> set (entries coll)" for e
    using that inj by (auto dest: inj_onD)
  have eq: "entries (delete_document_chunks coll D)
           = filter (\<lambda>e. md_document_id (entry_metadata e) \<noteq> D) (entries coll)"
    unfolding delete_document_chunks_entries by (rule filter_cong) (simp_all add: key)
  have ql: "query_log (delete_document_chunks coll D) = query_log coll"
    by (simp add: delete_document_chunks_def collection_delete_def Let_def)
  show ?thesis unfolding eq using ql by simp
qed

theorem delete_document_chunks_exact_witness:
  "distinct (map entry_id (entries sample_collection))
   \<and> entries (delete_document_chunks sample_collection ''d1'')
       = [\<lparr>entry_id = ''d2_chunk_0'', entry_document = ''beta'', entry_embedding = [4],
           entry_metadata = sample_metadata\<lparr>md_document_id := ''d2''\<rparr>\<rparr>]"
proof -
  have d: "distinct (map entry_id (entries sample_collection))"
    by (simp add: sample_collection_def)
  from delete_document_chunks_exact [OF d, of "''d1''"] d
  show ?thesis by (simp add: sample_collection_def sample_metadata_def)
qed

subsection \<open>Document ingestion\<close>

lemma strip_empty_iff: "strip s = [] \<longleftrightarrow> (\<forall>c\<in>set s. is_space c)"
proof
  assume "strip s = []"
  then have a: "\<forall>c\<in>set (dropWhile is_space s). is_space c"
    by (simp add: strip_def dropWhile_eq_Nil_conv)
  have "dropWhile is_space s = []"
  proof (rule ccontr)
    assume ne: "dropWhile is_space s \<noteq> []"
    then have "\<not> is_space (hd (dropWhile is_space s))" by (rule hd_dropWhile)
    moreover have "hd (dropWhile is_space s) \<in> set (dropWhile is_space s)" using ne by simp
    ultimately show False using a by blast
  qed
  then show "\<forall>c\<in>set s. is_space c" by (simp add: dropWhile_eq_Nil_conv)
next
  assume "\<forall>c\<in>set s. is_space c"
  then have d: "dropWhile is_space s = []" by (simp add: dropWhile_eq_Nil_conv)
  show "strip s = []" unfolding strip_def d by simp
qed

lemma dash_not_space: "\<not> is_space (CHR ''-'')"
  by (simp add: is_space_def)

lemma extract_pages_blank:
  "strip (extract_pages n ps acc) = [] \<longleftrightarrow> strip acc = [] \<and> (\<forall>p\<in>set ps. p = [])"
proof (induction ps arbitrary: n acc)
  case Nil
  then show ?case by simp
next
  case (Cons p ps)
  show ?case
  proof (cases "p = []")
    case True
    then show ?thesis using Cons.IH [of "Suc n" acc] by simp
  next
    case False
    let ?acc = "acc @ ''\<newline>--- Page '' @ str_nat (n + 1) @ '' ---\<newline>'' @ p"
    have "CHR ''-'' \<in> set ?acc" by simp
    then have "strip ?acc \<noteq> []" unfolding strip_empty_iff using dash_not_space by blast
    then show ?thesis using False Cons.IH [of "Suc n" ?acc] by simp
  qed
qed

lemma extract_text_from_pdf_blank:
  "extract_text_from_pdf (Pages ps) =
     (if \<forall>p\<in>set ps. p = [] then Inl (Exception ''No text could be extracted from PDF'')
      else Inr (extract_pages 0 ps []))"
proof -
  have "strip (extract_pages 0 ps []) = [] \<longleftrightarrow> (\<forall>p\<in>set ps. p = [])"
    unfolding extract_pages_blank by (simp add: strip_def)
  then show ?thesis by (simp add: extract_text_from_pdf_def Let_def)
qed

lemma zip_map_same: "zip (map f xs) (map g xs) = map (\<lambda>x. (f x, g x)) xs"
  by (induction xs) simp_all

lemma collection_add_enumerate:
  "collection_add coll chunks (map (embed_text ev) chunks)
     (map (\<lambda>(i, chunk). \<lparr>md_document_id = doc_id doc, chunk_index = i,
                           document_title = filename doc,
                           md_created_at = doc_created_at doc\<rparr>) (enumerate 0 chunks))
     (map (\<lambda>(i, chunk). doc_id doc @ ''_chunk_'' @ str_nat i) (enumerate 0 chunks))
   = coll\<lparr>entries := entries coll @ map (chunk_entry ev doc) (enumerate 0 chunks)\<rparr>"
proof -
  let ?E = "enumerate 0 chunks"
  have c: "chunks = map snd ?E" by simp
  have e: "map (embed_text ev) chunks = map (\<lambda>z. embed_text ev (snd z)) ?E"
    by (subst c) (simp only: map_map comp_def)
  let ?m = "\<lambda>(i, chunk). \<lparr>md_document_id = doc_id doc, chunk_index = i,
                           document_title = filename doc,
                           md_created_at = doc_created_at doc\<rparr>"
  let ?i = "\<lambda>(i::nat, chunk::string). doc_id doc @ ''_chunk_'' @ str_nat i"
  have "zip (map ?i ?E) (zip chunks (zip (map (embed_text ev) chunks) (map ?m ?E)))
      = zip (map ?i ?E) (zip (map snd ?E) (zip (map (\<lambda>z. embed_text ev (snd z)) ?E) (map ?m ?E)))"
    using c e by simp
  also have "\<dots> = map (\<lambda>z. (?i z, snd z, embed_text ev (snd z), ?m z)) ?E"
    by (simp only: zip_map_same)
  finally have z: "zip (map ?i ?E) (zip chunks (zip (map (embed_text ev) chunks) (map ?m ?E)))
      = map (\<lambda>z. (?i z, snd z, embed_text ev (snd z), ?m z)) ?E" .
  show ?thesis
    unfolding collection_add_def z
    by (simp add: chunk_entry_def case_prod_beta comp_def)
qed

lemma process_document_cases:
  "process_document ev coll pdf doc =
     (case extract_text_from_pdf pdf of
        Inl e \<Rightarrow> (Inl e, coll)
      | Inr text \<Rightarrow>
          if split_text ev text = []
          then (Inl (Exception ''No chunks created from document''), coll)
          else (Inr (int (length (split_text ev text))),
                coll\<lparr>entries := entries coll
                   @ map (chunk_entry ev doc) (enumerate 0 (split_text ev text))\<rparr>))"
  unfolding process_document_def Let_def collection_add_enumerate
  by (simp split: sum.splits)


lemma upload_document_failure_frame:
  assumes "upload_document ev cfg new_id now db coll file uid = (Inl e, db', coll')"
  shows "db' = db \<and> coll' = coll"
proof -
  let ?doc = "\<lparr>doc_id = new_id, doc_user_id = uid, filename = up_filename file,
                    file_path = upload_dir cfg @ ''/'' @ uid @ ''_'' @ up_filename file,
                    file_size = up_written file,
                    file_type = ''application/pdf'', chunk_count = 0,
                    doc_created_at = now\<rparr>"
  obtain res c1 where p: "process_document ev coll (up_pdf file) ?doc = (res, c1)"
    by (cases "process_document ev coll (up_pdf file) ?doc")
  have c1: "res = Inl x \<Longrightarrow> c1 = coll" for x
    using p unfolding process_document_cases
    by (auto split: sum.splits if_splits)
  from assms show ?thesis
    unfolding upload_document_def Let_def p
    by (auto split: if_splits sum.splits dest: c1)
qed

lemma upload_document_success:
  assumes "upload_document ev cfg new_id now db coll file uid = (Inr d, db', coll')"
  shows "documents db' = documents db @ [d]
       \<and> process_document ev coll (up_pdf file) (d\<lparr>chunk_count := 0\<rparr>) = (Inr (chunk_count d), coll')"
  using assms unfolding upload_document_def Let_def
  by (auto split: if_splits sum.splits prod.splits)

lemma process_document_success:
  assumes "process_document ev coll pdf doc = (Inr n, coll')"
  shows "\<exists>text. extract_text_from_pdf pdf = Inr text \<and> split_text ev text \<noteq> []
               \<and> n = int (length (split_text ev text))
               \<and> entries coll' = entries coll
                    @ map (chunk_entry ev doc) (enumerate 0 (split_text ev text))
               \<and> query_log coll' = query_log coll"
  using assms unfolding process_document_cases
  by (cases "extract_text_from_pdf pdf") (auto split: if_splits)

text \<open>
  C6. If extraction raises, which for a readable file happens exactly when no page
  yields any text, or if the splitter returns no chunk, \<open>process_document\<close> fails and the
  index is as before. When it succeeds it returns the number of chunks, and the index has
  gained exactly one entry per chunk, the chunk at position \<open>i\<close> under the id
  \<open>{document_id}_chunk_{i}\<close>. A failed upload leaves the database and the index as they
  were, so no document row with a chunk count comes to exist; a successful one adds the
  row with \<open>chunk_count\<close> the number of entries that the index gained.
\<close>

theorem process_document_all_or_nothing:
  "(\<forall>e. extract_text_from_pdf pdf = Inl e
        \<longrightarrow> process_document ev coll pdf doc = (Inl e, coll))
   \<and> ((\<forall>p\<in>set ps. p = [])
        \<longrightarrow> extract_text_from_pdf (Pages ps)
              = Inl (Exception ''No text could be extracted from PDF''))
   \<and> (\<forall>text. extract_text_from_pdf pdf = Inr text \<and> split_text ev text = []
        \<longrightarrow> process_document ev coll pdf doc
              = (Inl (Exception ''No chunks created from document''), coll))
   \<and> (\<forall>n coll'. process_document ev coll pdf doc = (Inr n, coll')
        \<longrightarrow> (\<exists>text. extract_text_from_pdf pdf = Inr text \<and> split_text ev text \<noteq> []
               \<and> n = int (length (split_text ev text))
               \<and> entries coll' = entries coll
                    @ map (chunk_entry ev doc) (enumerate 0 (split_text ev text))
               \<and> query_log coll' = query_log coll))
   \<and> (\<forall>e db' coll'. upload_document ev cfg new_id now db coll file uid = (Inl e, db', coll')
        \<longrightarrow> db' = db \<and> coll' = coll)
   \<and> (\<forall>d db' coll'. upload_document ev cfg new_id now db coll file uid = (Inr d, db', coll')
        \<longrightarrow> documents db' = documents db @ [d]
            \<and> chunk_count d = int (length (entries coll')) - int (length (entries coll)))"
proof -
  have p1: "\<forall>e. extract_text_from_pdf pdf = Inl e
        \<longrightarrow> process_document ev coll pdf doc = (Inl e, coll)"
    by (simp add: process_document_cases)
  have p2: "(\<forall>p\<in>set ps. p = [])
        \<longrightarrow> extract_text_from_pdf (Pages ps)
              = Inl (Exception ''No text could be extracted from PDF'')"
    by (simp add: extract_text_from_pdf_blank)
  have p3: "\<forall>text. extract_text_from_pdf pdf = Inr text \<and> split_text ev text = []
        \<longrightarrow> process_document ev coll pdf doc
              = (Inl (Exception ''No chunks created from document''), coll)"
    by (simp add: process_document_cases)
  have p4: "\<forall>n coll'. process_document ev coll pdf doc = (Inr n, coll')
        \<longrightarrow> (\<exists>text. extract_text_from_pdf pdf = Inr text \<and> split_text ev text \<noteq> []
               \<and> n = int (length (split_text ev text))
               \<and> entries coll' = entries coll
                    @ map (chunk_entry ev doc) (enumerate 0 (split_text ev text))
               \<and> query_log coll' = query_log coll)"
    using process_document_success by blast
  have p5: "\<forall>e db' coll'. upload_document ev cfg new_id now db coll file uid = (Inl e, db', coll')
        \<longrightarrow> db' = db \<and> coll' = coll"
    using upload_document_failure_frame by blast
  have p6: "documents db' = documents db @ [d]
            \<and> chunk_count d = int (length (entries coll')) - int (length (entries coll))"
    if u: "upload_document ev cfg new_id now db coll file uid = (Inr d, db', coll')" for d db' coll'
  proof -
    from upload_document_success [OF u]
    have a: "documents db' = documents db @ [d]"
      and b: "process_document ev coll (up_pdf file) (d\<lparr>chunk_count := 0\<rparr>) = (Inr (chunk_count d), coll')"
      by simp_all
    from process_document_success [OF b] show ?thesis using a by auto
  qed
  from p1 p2 p3 p4 p5 p6 show ?thesis by blast
qed


theorem process_document_all_or_nothing_witness:
  "extract_text_from_pdf (up_pdf blank_upload)
     = Inl (Exception ''No text could be extracted from PDF'')
   \<and> process_document sample_env sample_collection (up_pdf blank_upload) sample_document
       = (Inl (Exception ''No text could be extracted from PDF''), sample_collection)
   \<and> upload_document sample_env default_settings ''d9'' ''2024-01-02T00:00:00'' sample_db
         sample_collection blank_upload ''u1''
       = (Inl (HTTPException 500
                 ''Error processing document: No text could be extracted from PDF''),
          sample_db, sample_collection)
   \<and> process_document sample_env sample_collection (Pages [''Hello'']) sample_document
       = (Inr 1, sample_collection\<lparr>entries := entries sample_collection @
            [\<lparr>entry_id = ''d9_chunk_0'', entry_document = ''\<newline>--- Page 1 ---\<newline>Hello'',
              entry_embedding = [21],
              entry_metadata = \<lparr>md_document_id = ''d9'', chunk_index = 0,
                                document_title = ''note.pdf'',
                                md_created_at = ''2024-01-02T00:00:00''\<rparr>\<rparr>]\<rparr>)"
proof -
  note inst = process_document_all_or_nothing [where pdf = "up_pdf blank_upload"
      and ev = sample_env and coll = sample_collection and doc = sample_document
      and ps = "[[], []]"]
  have x: "extract_text_from_pdf (up_pdf blank_upload)
     = Inl (Exception ''No text could be extracted from PDF'')"
    using inst by (simp add: blank_upload_def)
  with inst have p: "process_document sample_env sample_collection (up_pdf blank_upload) sample_document
       = (Inl (Exception ''No text could be extracted from PDF''), sample_collection)"
    by blast
  have p': "process_document sample_env sample_collection (up_pdf blank_upload) doc
       = (Inl (Exception ''No text could be extracted from PDF''), sample_collection)" for doc
    using x by (simp add: process_document_cases)
  have u: "upload_document sample_env default_settings ''d9'' ''2024-01-02T00:00:00'' sample_db
         sample_collection blank_upload ''u1''
       = (Inl (HTTPException 500
                 ''Error processing document: No text could be extracted from PDF''),
          sample_db, sample_collection)"
    unfolding upload_document_def Let_def p'
    by (simp add: blank_upload_def sample_db_def default_settings_def suffix_to_prefix)
  have e: "extract_text_from_pdf (Pages [''Hello'']) = Inr ''\<newline>--- Page 1 ---\<newline>Hello''"
    by (simp add: extract_text_from_pdf_blank str_nat.simps)
  have s: "process_document sample_env sample_collection (Pages [''Hello'']) sample_document
       = (Inr 1, sample_collection\<lparr>entries := entries sample_collection @
            [\<lparr>entry_id = ''d9_chunk_0'', entry_document = ''\<newline>--- Page 1 ---\<newline>Hello'',
              entry_embedding = [21],
              entry_metadata = \<lparr>md_document_id = ''d9'', chunk_index = 0,
                                document_title = ''note.pdf'',
                                md_created_at = ''2024-01-02T00:00:00''\<rparr>\<rparr>]\<rparr>)"
    unfolding process_document_cases e
    by (simp add: sample_env_def chunk_entry_def sample_document_def str_nat.simps)
  from x p u s show ?thesis by simp
qed

subsection \<open>Retrieval: the document scope\<close>

lemma zip3_map_same:
  "zip (map f xs) (zip (map g xs) (map h xs)) = map (\<lambda>x. (f x, g x, h x)) xs"
  by (induction xs) simp_all

lemma retrieve_relevant_chunks_eq:
  "fst (retrieve_relevant_chunks ev cfg coll q ids k) =
     Inr (collect_chunks cfg (enumerate 0
            (map (hit_row ev (embed_query ev q))
               (query_hits ev coll (embed_query ev q)
                  (case k of None \<Rightarrow> top_k_chunks cfg | Some n \<Rightarrow> n)
                  (build_where_filter ids)))))"
proof -
  let ?qe = "embed_query ev q" and ?n = "case k of None \<Rightarrow> top_k_chunks cfg | Some n \<Rightarrow> n"
  let ?hits = "query_hits ev coll ?qe ?n (build_where_filter ids)"
  have z: "zip (map entry_document ?hits)
             (zip (map entry_metadata ?hits)
                  (map (\<lambda>e. distance ev ?qe (entry_embedding e)) ?hits))
         = map (hit_row ev ?qe) ?hits"
    unfolding zip3_map_same hit_row_def ..
  have "fst (retrieve_relevant_chunks ev cfg coll q ids k) =
      format_results cfg
        \<lparr>res_documents = [map entry_document ?hits],
         res_metadatas = [map entry_metadata ?hits],
         res_distances = [map (\<lambda>e. distance ev ?qe (entry_embedding e)) ?hits]\<rparr>"
    by (simp add: retrieve_relevant_chunks_def collection_query_def Let_def query_hits_def)
  also have "\<dots> = Inr (collect_chunks cfg (enumerate 0 (map (hit_row ev ?qe) ?hits)))"
    unfolding format_results_def by (simp add: z)
  finally show ?thesis .
qed

lemma collect_chunks_member:
  "c \<in> set (collect_chunks cfg (enumerate 0 (map g hits))) \<longleftrightarrow>
     (\<exists>i<length hits. 1 - snd (snd (g (hits ! i))) \<ge> similarity_threshold cfg
         \<and> c = mk_chunk (i, g (hits ! i)))"
proof -
  have "c \<in> set (collect_chunks cfg (enumerate 0 (map g hits))) \<longleftrightarrow>
      (\<exists>z\<in>set (enumerate 0 (map g hits)).
          1 - snd (snd (snd z)) \<ge> similarity_threshold cfg \<and> c = mk_chunk z)"
    unfolding collect_chunks_filter by (auto simp: case_prod_beta)
  also have "\<dots> \<longleftrightarrow> (\<exists>i<length hits. 1 - snd (snd (g (hits ! i))) \<ge> similarity_threshold cfg
         \<and> c = mk_chunk (i, g (hits ! i)))"
  proof
    assume "\<exists>z\<in>set (enumerate 0 (map g hits)).
          1 - snd (snd (snd z)) \<ge> similarity_threshold cfg \<and> c = mk_chunk z"
    then obtain z where z: "z \<in> set (enumerate 0 (map g hits))"
      "1 - snd (snd (snd z)) \<ge> similarity_threshold cfg" "c = mk_chunk z" by blast
    from z(1) have fz: "fst z < length hits" and sz: "g (hits ! fst z) = snd z"
      by (auto simp: in_set_enumerate_eq)
    have "1 - snd (snd (g (hits ! fst z))) \<ge> similarity_threshold cfg"
      unfolding sz using z(2) .
    moreover have "c = mk_chunk (fst z, g (hits ! fst z))"
      unfolding sz using z(3) by simp
    ultimately show "\<exists>i<length hits. 1 - snd (snd (g (hits ! i))) \<ge> similarity_threshold cfg
         \<and> c = mk_chunk (i, g (hits ! i))"
      using fz by blast
  next
    assume "\<exists>i<length hits. 1 - snd (snd (g (hits ! i))) \<ge> similarity_threshold cfg
         \<and> c = mk_chunk (i, g (hits ! i))"
    then obtain i where i: "i < length hits"
      "1 - snd (snd (g (hits ! i))) \<ge> similarity_threshold cfg" "c = mk_chunk (i, g (hits ! i))"
      by blast
    have "(i, g (hits ! i)) \<in> set (enumerate 0 (map g hits))"
      using i(1) by (simp add: in_set_enumerate_eq)
    with i(2,3) show "\<exists>z\<in>set (enumerate 0 (map g hits)).
          1 - snd (snd (snd z)) \<ge> similarity_threshold cfg \<and> c = mk_chunk z"
      by (intro bexI[of _ "(i, g (hits ! i))"]) simp_all
  qed
  finally show ?thesis .
qed

lemma query_hits_subset:
  "e \<in> set (query_hits ev coll qe n flt) \<Longrightarrow> e \<in> set (entries coll) \<and> matches flt e"
  unfolding query_hits_def by (auto dest!: in_set_takeD)

lemma query_hits_all:
  assumes "length (entries coll) \<le> n"
  shows "set (query_hits ev coll qe n None) = set (entries coll)"
  using assms unfolding query_hits_def by simp

lemma mk_chunk_fields:
  "rc_content (mk_chunk (i, hit_row ev qe e)) = entry_document e"
  "rc_metadata (mk_chunk (i, hit_row ev qe e)) = entry_metadata e"
  "similarity_score (mk_chunk (i, hit_row ev qe e)) = 1 - distance ev qe (entry_embedding e)"
  by (simp_all add: mk_chunk_def hit_row_def)

text \<open>
  C10. Called with an empty \<open>document_ids\<close> list, \<open>retrieve_relevant_chunks\<close> sends the
  query without any filter, so it runs over the whole index: every entry of the index
  that clears the threshold is returned, whatever its document, as soon as \<open>top_k\<close>
  is at least the size of the index. With a non-empty list the query carries the filter
  on that list, and every chunk returned belongs to one of the listed documents.
\<close>

theorem retrieve_unscoped_without_document_ids:
  "q_where (last (query_log (snd (retrieve_relevant_chunks ev cfg coll q [] k)))) = None
   \<and> (\<forall>e. e \<in> set (entries coll)
          \<and> similarity_threshold cfg \<le> 1 - distance ev (embed_query ev q) (entry_embedding e)
          \<and> length (entries coll) \<le> (case k of None \<Rightarrow> top_k_chunks cfg | Some n \<Rightarrow> n)
        \<longrightarrow> (\<exists>rc c. fst (retrieve_relevant_chunks ev cfg coll q [] k) = Inr rc \<and> c \<in> set rc
                \<and> rc_content c = entry_document e \<and> rc_metadata c = entry_metadata e))
   \<and> (ids \<noteq> [] \<longrightarrow>
        q_where (last (query_log (snd (retrieve_relevant_chunks ev cfg coll q ids k))))
          = Some (DocumentIdIn ids)
        \<and> (\<forall>rc c. fst (retrieve_relevant_chunks ev cfg coll q ids k) = Inr rc \<and> c \<in> set rc
              \<longrightarrow> md_document_id (rc_metadata c) \<in> set ids))"
proof -
  let ?qe = "embed_query ev q" and ?n = "case k of None \<Rightarrow> top_k_chunks cfg | Some n \<Rightarrow> n"
  have p1: "q_where (last (query_log (snd (retrieve_relevant_chunks ev cfg coll q [] k)))) = None"
    by (simp add: retrieve_relevant_chunks_log build_where_filter_def)
  have p2: "\<exists>rc c. fst (retrieve_relevant_chunks ev cfg coll q [] k) = Inr rc \<and> c \<in> set rc
                \<and> rc_content c = entry_document e \<and> rc_metadata c = entry_metadata e"
    if e: "e \<in> set (entries coll)"
      and s: "similarity_threshold cfg \<le> 1 - distance ev ?qe (entry_embedding e)"
      and n: "length (entries coll) \<le> ?n" for e
  proof -
    let ?hits = "query_hits ev coll ?qe ?n (build_where_filter [])"
    have "e \<in> set ?hits" using e query_hits_all [OF n] by (simp add: build_where_filter_def)
    then obtain i where i: "i < length ?hits" "?hits ! i = e" by (auto simp: in_set_conv_nth)
    let ?c = "mk_chunk (i, hit_row ev ?qe e)"
    have "?c \<in> set (collect_chunks cfg (enumerate 0 (map (hit_row ev ?qe) ?hits)))"
      unfolding collect_chunks_member using i s
      by (intro exI[of _ i]) (simp add: hit_row_def)
    then show ?thesis
      unfolding retrieve_relevant_chunks_eq by (intro exI[of _ _] exI[of _ ?c]) (simp add: mk_chunk_fields)
  qed
  have p3: "q_where (last (query_log (snd (retrieve_relevant_chunks ev cfg coll q ids k))))
          = Some (DocumentIdIn ids)" if "ids \<noteq> []"
    using that by (simp add: retrieve_relevant_chunks_log build_where_filter_def)
  have p4: "md_document_id (rc_metadata c) \<in> set ids"
    if ne: "ids \<noteq> []" and r: "fst (retrieve_relevant_chunks ev cfg coll q ids k) = Inr rc"
      and c: "c \<in> set rc" for rc c
  proof -
    let ?hits = "query_hits ev coll ?qe ?n (build_where_filter ids)"
    from r c have "c \<in> set (collect_chunks cfg (enumerate 0 (map (hit_row ev ?qe) ?hits)))"
      unfolding retrieve_relevant_chunks_eq by simp
    then obtain i where i: "i < length ?hits" "c = mk_chunk (i, hit_row ev ?qe (?hits ! i))"
      unfolding collect_chunks_member by auto
    have "?hits ! i \<in> set ?hits" using i(1) by simp
    from query_hits_subset [OF this] ne
    have "md_document_id (entry_metadata (?hits ! i)) \<in> set ids"
      by (simp add: build_where_filter_def)
    then show ?thesis by (simp add: i(2) mk_chunk_fields)
  qed
  from p1 p2 p3 p4 show ?thesis by blast
qed


theorem retrieve_unscoped_without_document_ids_witness:
  "q_where (last (query_log (snd (retrieve_relevant_chunks sample_env default_settings
       sample_collection ''Hello'' [] None)))) = None
   \<and> (\<exists>rc c. fst (retrieve_relevant_chunks sample_env default_settings sample_collection
                     ''Hello'' [] None) = Inr rc
          \<and> c \<in> set rc \<and> rc_content c = ''beta'' \<and> md_document_id (rc_metadata c) = ''d2'')
   \<and> q_where (last (query_log (snd (retrieve_relevant_chunks sample_env default_settings
       sample_collection ''Hello'' [''d1''] None)))) = Some (DocumentIdIn [''d1''])
   \<and> \<not> (\<exists>rc c. fst (retrieve_relevant_chunks sample_env default_settings sample_collection
                     ''Hello'' [''d1''] None) = Inr rc
          \<and> c \<in> set rc \<and> md_document_id (rc_metadata c) \<notin> set [''d1''])"
proof -
  let ?e = "\<lparr>entry_id = ''d2_chunk_0'', entry_document = ''beta'', entry_embedding = [4],
          entry_metadata = sample_metadata\<lparr>md_document_id := ''d2''\<rparr>\<rparr>"
  note inst = retrieve_unscoped_without_document_ids [where ev = sample_env
      and cfg = default_settings and coll = sample_collection and q = "''Hello''"
      and k = None and ids = "[''d1'']"]
  have h1: "?e \<in> set (entries sample_collection)" by (simp add: sample_collection_def)
  have h2: "similarity_threshold default_settings
      \<le> 1 - distance sample_env (embed_query sample_env ''Hello'') (entry_embedding ?e)"
    by (simp add: default_settings_def sample_env_def)
  have h3: "length (entries sample_collection)
      \<le> (case None of None \<Rightarrow> top_k_chunks default_settings | Some n \<Rightarrow> n)"
    by (simp add: sample_collection_def default_settings_def)
  from inst h1 h2 h3
  have "\<exists>rc c. fst (retrieve_relevant_chunks sample_env default_settings sample_collection
                     ''Hello'' [] None) = Inr rc
          \<and> c \<in> set rc \<and> rc_content c = entry_document ?e \<and> rc_metadata c = entry_metadata ?e"
    by blast
  then have a: "\<exists>rc c. fst (retrieve_relevant_chunks sample_env default_settings sample_collection
                     ''Hello'' [] None) = Inr rc
          \<and> c \<in> set rc \<and> rc_content c = ''beta'' \<and> md_document_id (rc_metadata c) = ''d2''"
  proof -
    from \<open>\<exists>rc c. fst (retrieve_relevant_chunks sample_env default_settings sample_collection
                     ''Hello'' [] None) = Inr rc
          \<and> c \<in> set rc \<and> rc_content c = entry_document ?e \<and> rc_metadata c = entry_metadata ?e\<close>
    obtain rc c where r: "fst (retrieve_relevant_chunks sample_env default_settings sample_collection
                     ''Hello'' [] None) = Inr rc" "c \<in> set rc"
      "rc_content c = entry_document ?e" "rc_metadata c = entry_metadata ?e" by blast
    have "rc_content c = ''beta''" using r(3) by simp
    moreover have "md_document_id (rc_metadata c) = ''d2''" using r(4) by simp
    ultimately show ?thesis using r(1,2) by blast
  qed
  from inst have b: "q_where (last (query_log (snd (retrieve_relevant_chunks sample_env default_settings
       sample_collection ''Hello'' [] None)))) = None" by blast
  have ne: "[''d1''] \<noteq> ([]::string list)" by simp
  from inst ne have c: "q_where (last (query_log (snd (retrieve_relevant_chunks sample_env default_settings
       sample_collection ''Hello'' [''d1''] None)))) = Some (DocumentIdIn [''d1''])"
    and d: "\<not> (\<exists>rc c. fst (retrieve_relevant_chunks sample_env default_settings sample_collection
                     ''Hello'' [''d1''] None) = Inr rc
          \<and> c \<in> set rc \<and> md_document_id (rc_metadata c) \<notin> set [''d1''])"
    by blast+
  from a b c d show ?thesis by blast
qed

subsection \<open>Chunk ids stay unique\<close>

text \<open>
  The ids that \<open>process_document\<close> derives for one document are pairwise different, so
  ingesting a document whose id prefix is not yet used in the index, and deleting a
  document's chunks, both keep the ids of the index unique.
\<close>

lemma digit_value: "d < 10 \<Longrightarrow> (of_char (''0123456789'' ! d) :: nat) - 48 = d"
proof -
  assume "d < 10"
  then have "d \<in> set [0..<10]" by simp
  then show ?thesis by (auto simp: upt_conv_Cons)
qed

lemma nat_of_digits_str_nat: "nat_of_digits (str_nat n) = n"
proof (induction n rule: str_nat.induct)
  case (1 n)
  show ?case
  proof (cases "n < 10")
    case True
    then show ?thesis by (subst str_nat.simps) (simp add: nat_of_digits_def digit_value)
  next
    case False
    have m: "n mod 10 < 10" by simp
    from False 1 have ih: "nat_of_digits (str_nat (n div 10)) = n div 10" by simp
    have "nat_of_digits (str_nat n)
        = 10 * nat_of_digits (str_nat (n div 10)) + (of_char (''0123456789'' ! (n mod 10)) - 48)"
      using False by (subst str_nat.simps) (simp add: nat_of_digits_def)
    also have "\<dots> = 10 * (n div 10) + n mod 10" unfolding ih digit_value [OF m] ..
    also have "\<dots> = n" by simp
    finally show ?thesis .
  qed
qed

lemma str_nat_inj: "str_nat a = str_nat b \<Longrightarrow> a = b"
  by (metis nat_of_digits_str_nat)

lemma chunk_ids_distinct:
  "distinct (map entry_id (map (chunk_entry ev doc) (enumerate n chunks)))"
proof -
  have "map entry_id (map (chunk_entry ev doc) (enumerate n chunks))
      = map (\<lambda>z. doc_id doc @ ''_chunk_'' @ str_nat (fst z)) (enumerate n chunks)"
    by (simp add: chunk_entry_def case_prod_beta comp_def)
  also have "\<dots> = map (\<lambda>i. doc_id doc @ ''_chunk_'' @ str_nat i) (map fst (enumerate n chunks))"
    by (simp only: map_map comp_def)
  also have "\<dots> = map (\<lambda>i. doc_id doc @ ''_chunk_'' @ str_nat i) [n..<n + length chunks]"
    by (simp only: map_fst_enumerate)
  finally have e: "map entry_id (map (chunk_entry ev doc) (enumerate n chunks))
      = map (\<lambda>i. doc_id doc @ ''_chunk_'' @ str_nat i) [n..<n + length chunks]" .
  have "inj (\<lambda>i. doc_id doc @ ''_chunk_'' @ str_nat i)"
    by (rule injI) (simp add: str_nat_inj)
  then show ?thesis unfolding e by (simp add: distinct_map inj_on_def)
qed

lemma process_document_keeps_ids_distinct:
  assumes d: "distinct (map entry_id (entries coll))"
    and fresh: "\<forall>e\<in>set (entries coll). \<not> prefix (doc_id doc @ ''_chunk_'') (entry_id e)"
  shows "distinct (map entry_id (entries (snd (process_document ev coll pdf doc))))"
proof -
  have new: "\<forall>x\<in>set (map (chunk_entry ev doc) (enumerate 0 chunks)).
      prefix (doc_id doc @ ''_chunk_'') (entry_id x)" for chunks
    by (auto simp: chunk_entry_def)
  have "distinct (map entry_id (entries coll @ map (chunk_entry ev doc) (enumerate 0 chunks)))"
    for chunks
    using d fresh new [of chunks] chunk_ids_distinct [of ev doc 0 chunks]
    by (auto simp: distinct_append image_iff simp del: map_map) 
  then show ?thesis
    unfolding process_document_cases using d
    by (auto split: sum.splits)
qed

lemma delete_document_chunks_keeps_ids_distinct:
  "distinct (map entry_id (entries coll))
     \<Longrightarrow> distinct (map entry_id (entries (delete_document_chunks coll D)))"
  unfolding delete_document_chunks_entries by (rule distinct_map_filter)

end
